theory Spec2Isabelle
  imports Main "HOL-Library.AList" "HOL-Library.Sublist"
begin

section \<open>Values of the platform\<close>

text \<open>
  The offline layer of the food diary's page script (the objects \<^verbatim>\<open>AppCache\<close>,
  \<^verbatim>\<open>OfflineQueue\<close> and \<^verbatim>\<open>API\<close>) keeps everything it owns as JSON text in
  \<^verbatim>\<open>localStorage\<close>. A JSON value is modelled as it comes out of \<^verbatim>\<open>JSON.parse\<close>;
  an object is the list of its own properties in insertion order, read with \<^const>\<open>map_of\<close>
  and assigned with \<^const>\<open>AList.update\<close> (an existing key keeps its place, a new key
  goes last, as in JavaScript). Numbers are integers: the code computes on none but the clock.
\<close>

datatype json =
    JNull
  | JBool bool
  | JNum int
  | JStr string
  | JArr "json list"
  | JObj "(string \<times> json) list"

type_synonym obj = "(string \<times> json) list"

text \<open>A JavaScript value that may be \<^verbatim>\<open>undefined\<close>: \<^const>\<open>None\<close> is \<^verbatim>\<open>undefined\<close>.\<close>

type_synonym js_value = "json option"

datatype js_error =
    TypeError
  | SyntaxError
  | QuotaExceededError
  | NetworkError
  | Error string

text \<open>
  A string that holds (or should hold) JSON is represented by what \<^verbatim>\<open>JSON.parse\<close> makes
  of it: \<open>Doc v\<close> is any text that parses to \<open>v\<close>, in particular \<^verbatim>\<open>JSON.stringify(v)\<close>;
  \<open>Unparsable\<close> is any text on which \<^verbatim>\<open>JSON.parse\<close> throws, the empty string included.
\<close>

datatype json_text = Unparsable | Doc json

definition JSON_parse :: "json_text \<Rightarrow> js_error + json" where
  "JSON_parse s = (case s of Unparsable \<Rightarrow> Inl SyntaxError | Doc v \<Rightarrow> Inr v)"

definition JSON_stringify :: "json \<Rightarrow> json_text" where
  "JSON_stringify v = Doc v"

text \<open>\<^verbatim>\<open>localStorage\<close>: \<open>st k = None\<close> is \<^verbatim>\<open>getItem(k) === null\<close>.\<close>

type_synonym storage = "string \<rightharpoonup> json_text"

record request =
  url :: string
  http_method :: string
  headers :: "(string \<times> string) list"
  body :: "json_text option"

text \<open>
  What \<^verbatim>\<open>await fetch(...)\<close> gives: the promise rejects (no network), or a response
  arrives with its \<^verbatim>\<open>ok\<close> flag (status 2xx) and a body that \<^verbatim>\<open>response.json()\<close>
  parses or rejects.
\<close>

datatype fetch_outcome = Rejected | Response bool json_text

text \<open>
  Everything one call reads from outside the program: the clock, the network, whether
  \<^verbatim>\<open>localStorage.setItem\<close> accepts a write (it throws when the quota is exceeded), and four
  built-ins of the platform that are taken as they are, each consulted only on values
  whose conversion to a primitive does not throw:
  \<^item> \<^verbatim>\<open>new Date(t).toISOString()\<close>;
  \<^item> \<^verbatim>\<open>new Date(v).getTime()\<close>, where \<^const>\<open>None\<close> is \<^verbatim>\<open>NaN\<close>;
  \<^item> \<^verbatim>\<open>String(v)\<close> for the values the model does not print itself: arrays, objects, and
    numbers beyond the integers that a double holds exactly;
  \<^item> \<^verbatim>\<open>v > 0\<close> for a string, an array or an object \<open>v\<close>.
\<close>

record env =
  now :: int
  fetch :: "request \<Rightarrow> fetch_outcome"
  setItem_ok :: "string \<Rightarrow> json_text \<Rightarrow> bool"
  toISOString :: "int \<Rightarrow> string"
  Date_getTime :: "json \<Rightarrow> int option"
  String_other :: "json \<Rightarrow> string"
  coerced_gt_zero :: "json \<Rightarrow> bool"

definition localStorage_setItem :: "env \<Rightarrow> storage \<Rightarrow> string \<Rightarrow> json_text \<Rightarrow> js_error + storage" where
  "localStorage_setItem e st k v =
     (if setItem_ok e k v then Inr (st(k \<mapsto> v)) else Inl QuotaExceededError)"

definition localStorage_removeItem :: "storage \<Rightarrow> string \<Rightarrow> storage" where
  "localStorage_removeItem st k = st(k := None)"

subsection \<open>Conversions\<close>

definition digit_char :: "nat \<Rightarrow> char" where
  "digit_char d = ''0123456789'' ! d"

function decimal :: "nat \<Rightarrow> string" where
  "decimal n = (if n < 10 then [digit_char n] else decimal (n div 10) @ [digit_char (n mod 10)])"
  by pat_completeness auto
termination
  by (relation "measure (\<lambda>n. n)") auto

declare decimal.simps [simp del]

definition digits :: "int \<Rightarrow> string" where
  "digits n = (if n < 0 then CHR ''-'' # decimal (nat (- n)) else decimal (nat n))"

text \<open>
  Converting an object to a primitive calls its \<^verbatim>\<open>toString\<close>. An object out of
  \<^verbatim>\<open>JSON.parse\<close> that owns a property of that name has hidden the inherited method behind
  a value that cannot be called, and the conversion throws a TypeError. An array is
  converted by joining the string forms of its elements, so it throws when one of them
  does. Primitives convert without fail.
\<close>

fun conversion_throws :: "json \<Rightarrow> bool"
  and some_conversion_throws :: "json list \<Rightarrow> bool" where
  "conversion_throws (JObj ps) = (map_of ps ''toString'' \<noteq> None)"
| "conversion_throws (JArr xs) = some_conversion_throws xs"
| "conversion_throws v = False"
| "some_conversion_throws [] = False"
| "some_conversion_throws (x # xs) = (conversion_throws x \<or> some_conversion_throws xs)"

text \<open>
  \<^verbatim>\<open>String(n)\<close> for a number: plain decimal digits for the integers a double holds
  exactly (up to \<open>2\<^sup>5\<^sup>3\<close> in magnitude, which covers every reading of the clock), the
  platform's answer beyond.
\<close>

definition Number_toString :: "env \<Rightarrow> int \<Rightarrow> string" where
  "Number_toString e n =
     (if \<bar>n\<bar> \<le> 9007199254740992 then digits n else String_other e (JNum n))"

text \<open>
  \<^verbatim>\<open>String(v)\<close>, which is also what a template literal applies: the string, or the
  TypeError of a conversion that throws.
\<close>

fun js_String :: "env \<Rightarrow> json \<Rightarrow> js_error + string" where
  "js_String e JNull = Inr ''null''"
| "js_String e (JBool b) = Inr (if b then ''true'' else ''false'')"
| "js_String e (JNum n) = Inr (Number_toString e n)"
| "js_String e (JStr s) = Inr s"
| "js_String e v = (if conversion_throws v then Inl TypeError else Inr (String_other e v))"

definition startsWith :: "string \<Rightarrow> string \<Rightarrow> bool" where
  "startsWith s p = prefix p s"

fun truthy :: "json \<Rightarrow> bool" where
  "truthy JNull = False"
| "truthy (JBool b) = b"
| "truthy (JNum n) = (n \<noteq> 0)"
| "truthy (JStr s) = (s \<noteq> [])"
| "truthy (JArr xs) = True"
| "truthy (JObj ps) = True"

definition truthy_value :: "js_value \<Rightarrow> bool" where
  "truthy_value v = (case v of None \<Rightarrow> False | Some x \<Rightarrow> truthy x)"

text \<open>
  \<^verbatim>\<open>a === b\<close> between a value read out of a parsed document and a value of the caller:
  primitives are compared by value; an object or array of a freshly parsed document is
  identical to nothing the caller holds.
\<close>

fun strict_equal :: "js_value \<Rightarrow> json \<Rightarrow> bool" where
  "strict_equal (Some JNull) JNull = True"
| "strict_equal (Some (JBool a)) (JBool b) = (a = b)"
| "strict_equal (Some (JNum a)) (JNum b) = (a = b)"
| "strict_equal (Some (JStr a)) (JStr b) = (a = b)"
| "strict_equal _ _ = False"

text \<open>
  \<^verbatim>\<open>v.k\<close> for the property names the code reads (none of them inherited from a
  prototype): \<^verbatim>\<open>null\<close> has no properties and the read throws, an object gives its own
  property, every other value gives \<^verbatim>\<open>undefined\<close>.
\<close>

fun get_prop :: "json \<Rightarrow> string \<Rightarrow> js_error + js_value" where
  "get_prop JNull k = Inl TypeError"
| "get_prop (JObj ps) k = Inr (map_of ps k)"
| "get_prop v k = Inr None"

text \<open>
  \<^verbatim>\<open>q.k\<close> where a method of arrays (\<^verbatim>\<open>push\<close>, \<^verbatim>\<open>filter\<close>) is called on the result:
  no other JSON value has such a method, and the call throws.
\<close>

fun array_prop :: "json \<Rightarrow> string \<Rightarrow> js_error + json list" where
  "array_prop (JObj ps) k = (case map_of ps k of Some (JArr xs) \<Rightarrow> Inr xs | _ \<Rightarrow> Inl TypeError)"
| "array_prop v k = Inl TypeError"

text \<open>
  The object \<open>q\<close> after property \<open>k\<close> has received the value \<open>v\<close> (by assignment, or by
  a \<^verbatim>\<open>push\<close> that changed the array in place). The code reaches it for objects only.
\<close>

fun set_prop :: "json \<Rightarrow> string \<Rightarrow> json \<Rightarrow> json" where
  "set_prop (JObj ps) k v = JObj (AList.update k v ps)"
| "set_prop q k v = q"

fun Array_filter :: "('a \<Rightarrow> js_error + bool) \<Rightarrow> 'a list \<Rightarrow> js_error + 'a list" where
  "Array_filter f [] = Inr []"
| "Array_filter f (x # xs) =
     (case f x of
        Inl err \<Rightarrow> Inl err
      | Inr b \<Rightarrow>
          (case Array_filter f xs of
             Inl err \<Rightarrow> Inl err
           | Inr ys \<Rightarrow> Inr (if b then x # ys else ys)))"

text \<open>
  \<^verbatim>\<open>v > 0\<close> for a JSON value: \<^verbatim>\<open>null\<close> counts as 0, a boolean as 0 or 1, and a
  string, array or object is converted by the platform, unless the conversion throws.
\<close>

fun number_gt_zero :: "env \<Rightarrow> json \<Rightarrow> js_error + bool" where
  "number_gt_zero e JNull = Inr False"
| "number_gt_zero e (JBool b) = Inr b"
| "number_gt_zero e (JNum n) = Inr (n > 0)"
| "number_gt_zero e v = (if conversion_throws v then Inl TypeError else Inr (coerced_gt_zero e v))"

text \<open>
  \<^verbatim>\<open>v.length > 0\<close>. An array or a string has its length; \<^verbatim>\<open>null\<close> and \<^verbatim>\<open>undefined\<close>
  throw; a number or boolean has no \<^verbatim>\<open>length\<close>, and \<^verbatim>\<open>undefined > 0\<close> is false; an
  object may own a property of that name, which is then compared with 0.
\<close>

fun length_gt_zero :: "env \<Rightarrow> js_value \<Rightarrow> js_error + bool" where
  "length_gt_zero e None = Inl TypeError"
| "length_gt_zero e (Some JNull) = Inl TypeError"
| "length_gt_zero e (Some (JArr xs)) = Inr (length xs > 0)"
| "length_gt_zero e (Some (JStr s)) = Inr (length s > 0)"
| "length_gt_zero e (Some (JObj ps)) =
     (case map_of ps ''length'' of None \<Rightarrow> Inr False | Some v \<Rightarrow> number_gt_zero e v)"
| "length_gt_zero e (Some v) = Inr False"

text \<open>\<^verbatim>\<open>a || b\<close> on conditions that may throw: \<open>b\<close> is evaluated only when \<open>a\<close> is false.\<close>

fun or_else :: "js_error + bool \<Rightarrow> js_error + bool \<Rightarrow> js_error + bool" where
  "or_else (Inl err) b = Inl err"
| "or_else (Inr True) b = Inr True"
| "or_else (Inr False) b = b"

section \<open>AppCache: the snapshot of the server state\<close>

definition CACHE_KEY :: string where
  "CACHE_KEY = ''food_diary_cache''"

definition CACHE_VERSION :: string where
  "CACHE_VERSION = ''1.0''"

text \<open>
  \<^verbatim>\<open>AppCache.get()\<close>: the parsed snapshot when its \<^verbatim>\<open>version\<close> is the current one, else
  \<^verbatim>\<open>null\<close> (\<^const>\<open>None\<close>). Whatever the \<^verbatim>\<open>try\<close> block throws is caught. Only an object
  can pass the version test, so the result is given as an object.
\<close>

definition AppCache_get :: "storage \<Rightarrow> obj option" where
  "AppCache_get st =
     (case st CACHE_KEY of
        None \<Rightarrow> None
      | Some cached \<Rightarrow>
          (case JSON_parse cached of
             Inl err \<Rightarrow> None
           | Inr JNull \<Rightarrow> None
           | Inr (JObj data) \<Rightarrow>
               (if strict_equal (map_of data ''version'') (JStr CACHE_VERSION) then Some data
                else None)
           | Inr v \<Rightarrow> None))"

text \<open>
  \<^verbatim>\<open>AppCache.set(data)\<close> stamps the object it is given and writes it; a failing write is
  caught and logged. The stamped object is returned too: the caller keeps using it.
\<close>

definition AppCache_set :: "env \<Rightarrow> storage \<Rightarrow> obj \<Rightarrow> obj \<times> storage" where
  "AppCache_set e st data =
     (let data1 = AList.update ''version'' (JStr CACHE_VERSION) data;
          data2 = AList.update ''cachedAt'' (JStr (toISOString e (now e))) data1
      in case localStorage_setItem e st CACHE_KEY (JSON_stringify (JObj data2)) of
           Inl err \<Rightarrow> (data2, st)
         | Inr st' \<Rightarrow> (data2, st'))"

definition AppCache_clear :: "storage \<Rightarrow> storage" where
  "AppCache_clear st = localStorage_removeItem st CACHE_KEY"

definition fiveMinutes :: int where
  "fiveMinutes = 5 * 60 * 1000"

text \<open>
  \<^verbatim>\<open>AppCache.isValid()\<close> has no \<^verbatim>\<open>try\<close>: when \<^verbatim>\<open>new Date(cached.cachedAt)\<close> throws,
  so does the call. A date that is \<^verbatim>\<open>NaN\<close> makes the comparison false.
\<close>

definition AppCache_isValid :: "env \<Rightarrow> storage \<Rightarrow> js_error + bool" where
  "AppCache_isValid e st =
     (case AppCache_get st of
        None \<Rightarrow> Inr False
      | Some cached \<Rightarrow>
          (case map_of cached ''cachedAt'' of
             None \<Rightarrow> Inr False
           | Some c \<Rightarrow>
               (if \<not> truthy c then Inr False
                else if conversion_throws c then Inl TypeError
                else (case Date_getTime e c of
                        None \<Rightarrow> Inr False
                      | Some cachedTime \<Rightarrow> Inr (now e - cachedTime < fiveMinutes)))))"

section \<open>OfflineQueue: the pending changes\<close>

definition QUEUE_KEY :: string where
  "QUEUE_KEY = ''food_diary_queue''"

definition empty_queue :: json where
  "empty_queue =
     JObj [(''new_entries'', JArr []), (''deleted_entries'', JArr []),
           (''new_products'', JArr []), (''deleted_products'', JArr [])]"

text \<open>
  \<^verbatim>\<open>OfflineQueue.get()\<close>: the parsed item, whatever its shape; the empty queue when there
  is no item or \<^verbatim>\<open>JSON.parse\<close> throws.
\<close>

definition OfflineQueue_get :: "storage \<Rightarrow> json" where
  "OfflineQueue_get st =
     (case (case st QUEUE_KEY of None \<Rightarrow> Inr empty_queue | Some queue \<Rightarrow> JSON_parse queue) of
        Inl err \<Rightarrow> empty_queue
      | Inr q \<Rightarrow> q)"

text \<open>\<^verbatim>\<open>OfflineQueue.set(queue)\<close> has no \<^verbatim>\<open>try\<close>: a refused write is thrown to the caller.\<close>

definition OfflineQueue_set :: "env \<Rightarrow> storage \<Rightarrow> json \<Rightarrow> js_error + storage" where
  "OfflineQueue_set e st queue = localStorage_setItem e st QUEUE_KEY (JSON_stringify queue)"

definition temp_id :: "env \<Rightarrow> string" where
  "temp_id e = ''temp_'' @ Number_toString e (now e)"

text \<open>
  \<^verbatim>\<open>OfflineQueue.addEntry(entry)\<close> returns the temp id; the entry of the caller now carries
  it as \<^verbatim>\<open>_tempId\<close>, and is returned with it.
\<close>

definition OfflineQueue_addEntry :: "env \<Rightarrow> storage \<Rightarrow> obj \<Rightarrow> js_error + (string \<times> obj \<times> storage)" where
  "OfflineQueue_addEntry e st entry =
     (let queue = OfflineQueue_get st;
          entry' = AList.update ''_tempId'' (JStr (temp_id e)) entry
      in case array_prop queue ''new_entries'' of
           Inl err \<Rightarrow> Inl err
         | Inr es \<Rightarrow>
             (case OfflineQueue_set e st (set_prop queue ''new_entries'' (JArr (es @ [JObj entry']))) of
                Inl err \<Rightarrow> Inl err
              | Inr st' \<Rightarrow> Inr (temp_id e, entry', st')))"

text \<open>The callback of the filter: \<^verbatim>\<open>e => e._tempId !== entryId\<close>.\<close>

definition other_tempId :: "json \<Rightarrow> json \<Rightarrow> js_error + bool" where
  "other_tempId entryId x =
     (case get_prop x ''_tempId'' of
        Inl err \<Rightarrow> Inl err
      | Inr t \<Rightarrow> Inr (\<not> strict_equal t entryId))"

definition OfflineQueue_deleteEntry :: "env \<Rightarrow> storage \<Rightarrow> json \<Rightarrow> js_error + storage" where
  "OfflineQueue_deleteEntry e st entryId =
     (let queue = OfflineQueue_get st
      in case js_String e entryId of
           Inl err \<Rightarrow> Inl err
         | Inr s \<Rightarrow>
             (case (if startsWith s ''temp_''
                    then (case array_prop queue ''new_entries'' of
                            Inl err \<Rightarrow> Inl err
                          | Inr es \<Rightarrow>
                              (case Array_filter (other_tempId entryId) es of
                                 Inl err \<Rightarrow> Inl err
                               | Inr es' \<Rightarrow> Inr (set_prop queue ''new_entries'' (JArr es'))))
                    else (case array_prop queue ''deleted_entries'' of
                            Inl err \<Rightarrow> Inl err
                          | Inr ds \<Rightarrow>
                              Inr (set_prop queue ''deleted_entries'' (JArr (ds @ [entryId])))))
              of Inl err \<Rightarrow> Inl err
               | Inr queue' \<Rightarrow> OfflineQueue_set e st queue'))"

definition OfflineQueue_addProduct :: "env \<Rightarrow> storage \<Rightarrow> obj \<Rightarrow> js_error + (string \<times> obj \<times> storage)" where
  "OfflineQueue_addProduct e st product =
     (let queue = OfflineQueue_get st;
          product' = AList.update ''_tempId'' (JStr (temp_id e)) product
      in case array_prop queue ''new_products'' of
           Inl err \<Rightarrow> Inl err
         | Inr ps \<Rightarrow>
             (case OfflineQueue_set e st (set_prop queue ''new_products'' (JArr (ps @ [JObj product']))) of
                Inl err \<Rightarrow> Inl err
              | Inr st' \<Rightarrow> Inr (temp_id e, product', st')))"

definition OfflineQueue_clear :: "storage \<Rightarrow> storage" where
  "OfflineQueue_clear st = localStorage_removeItem st QUEUE_KEY"

definition list_nonempty :: "env \<Rightarrow> json \<Rightarrow> string \<Rightarrow> js_error + bool" where
  "list_nonempty e queue k =
     (case get_prop queue k of Inl err \<Rightarrow> Inl err | Inr v \<Rightarrow> length_gt_zero e v)"

definition OfflineQueue_hasChanges :: "env \<Rightarrow> storage \<Rightarrow> js_error + bool" where
  "OfflineQueue_hasChanges e st =
     (let queue = OfflineQueue_get st
      in or_else (list_nonempty e queue ''new_entries'')
           (or_else (list_nonempty e queue ''deleted_entries'')
              (or_else (list_nonempty e queue ''new_products'')
                 (list_nonempty e queue ''deleted_products''))))"

section \<open>API: network first, local fallback\<close>

text \<open>
  Each \<^verbatim>\<open>async\<close> function is modelled as one uninterrupted run on the storage it finds
  when it runs. Its result is the value its promise resolves to, or \<open>Inl\<close> of the error
  the promise is rejected with; beside it come the storage it leaves and the requests it
  has sent.
\<close>

type_synonym 'a outcome = "(js_error + 'a) \<times> storage \<times> request list"

definition json_headers :: "(string \<times> string) list" where
  "json_headers = [(''Content-Type'', ''application/json'')]"

definition sync_request :: request where
  "sync_request = \<lparr>url = ''/api/sync'', http_method = ''GET'', headers = [], body = None\<rparr>"

definition push_request :: "json \<Rightarrow> request" where
  "push_request queue =
     \<lparr>url = ''/api/sync'', http_method = ''POST'', headers = json_headers,
      body = Some (JSON_stringify queue)\<rparr>"

definition add_entry_request :: "obj \<Rightarrow> request" where
  "add_entry_request entry =
     \<lparr>url = ''/api/add_entry'', http_method = ''POST'', headers = json_headers,
      body = Some (JSON_stringify (JObj entry))\<rparr>"

text \<open>The request for an id whose string form is \<open>s\<close>.\<close>

definition delete_entry_request :: "string \<Rightarrow> request" where
  "delete_entry_request s =
     \<lparr>url = ''/api/delete_entry/'' @ s, http_method = ''DELETE'', headers = [], body = None\<rparr>"

definition add_product_request :: "obj \<Rightarrow> request" where
  "add_product_request product =
     \<lparr>url = ''/api/add_product'', http_method = ''POST'', headers = json_headers,
      body = Some (JSON_stringify (JObj product))\<rparr>"

text \<open>
  The pull inside the \<^verbatim>\<open>try\<close> block of \<^verbatim>\<open>API.syncAll\<close>, up to the test of
  \<^verbatim>\<open>result.success\<close>: the response object, or what is thrown.
\<close>

definition pull :: "env \<Rightarrow> js_error + obj" where
  "pull e =
     (case fetch e sync_request of
        Rejected \<Rightarrow> Inl NetworkError
      | Response ok b \<Rightarrow>
          (if \<not> ok then Inl (Error ''Sync failed'')
           else (case JSON_parse b of
                   Inl err \<Rightarrow> Inl err
                 | Inr JNull \<Rightarrow> Inl TypeError
                 | Inr (JObj result) \<Rightarrow>
                     (if truthy_value (map_of result ''success'') then Inr result
                      else Inl (case map_of result ''error'' of
                                  None \<Rightarrow> Error ''Sync failed''
                                | Some m \<Rightarrow>
                                    if truthy m
                                    then (case js_String e m of
                                            Inl err \<Rightarrow> err
                                          | Inr msg \<Rightarrow> Error msg)
                                    else Error ''Sync failed''))
                 | Inr v \<Rightarrow> Inl (Error ''Sync failed''))))"

definition API_syncAll :: "env \<Rightarrow> storage \<Rightarrow> js_value outcome" where
  "API_syncAll e st =
     (case pull e of
        Inr result \<Rightarrow>
          (let (result', st') = AppCache_set e st result
           in (Inr (map_of result' ''data''), st', [sync_request]))
      | Inl err \<Rightarrow>
          (case AppCache_get st of
             Some cached \<Rightarrow> (Inr (map_of cached ''data''), st, [sync_request])
           | None \<Rightarrow> (Inr (Some JNull), st, [sync_request])))"

text \<open>
  The push inside the \<^verbatim>\<open>try\<close> block of \<^verbatim>\<open>API.pushChanges\<close>: whether a response
  arrived with \<^verbatim>\<open>response.ok\<close>. A rejected request is caught and counts as no.
\<close>

definition push :: "env \<Rightarrow> json \<Rightarrow> bool" where
  "push e queue =
     (case fetch e (push_request queue) of
        Rejected \<Rightarrow> False
      | Response ok b \<Rightarrow> ok)"

definition API_pushChanges :: "env \<Rightarrow> storage \<Rightarrow> bool outcome" where
  "API_pushChanges e st =
     (case OfflineQueue_hasChanges e st of
        Inl err \<Rightarrow> (Inl err, st, [])
      | Inr False \<Rightarrow> (Inr True, st, [])
      | Inr True \<Rightarrow>
          (let queue = OfflineQueue_get st
           in if push e queue then (Inr True, OfflineQueue_clear st, [push_request queue])
              else (Inr False, st, [push_request queue])))"

text \<open>The \<^verbatim>\<open>try\<close> block of \<^verbatim>\<open>API.addEntry\<close>: \<^verbatim>\<open>result.entry\<close>, or what is thrown.\<close>

definition createEntry :: "env \<Rightarrow> obj \<Rightarrow> js_error + js_value" where
  "createEntry e entry =
     (case fetch e (add_entry_request entry) of
        Rejected \<Rightarrow> Inl NetworkError
      | Response ok b \<Rightarrow>
          (if ok
           then (case JSON_parse b of
                   Inl err \<Rightarrow> Inl err
                 | Inr result \<Rightarrow> get_prop result ''entry'')
           else Inl (Error ''Add entry failed'')))"

definition API_addEntry :: "env \<Rightarrow> storage \<Rightarrow> obj \<Rightarrow> js_value outcome" where
  "API_addEntry e st entry =
     (case createEntry e entry of
        Inr v \<Rightarrow> (Inr v, st, [add_entry_request entry])
      | Inl err \<Rightarrow>
          (case OfflineQueue_addEntry e st entry of
             Inl err' \<Rightarrow> (Inl err', st, [add_entry_request entry])
           | Inr (tempId, entry', st') \<Rightarrow>
               (Inr (Some (JObj (AList.update ''_offline'' (JBool True)
                                   (AList.update ''id'' (JStr tempId) entry')))),
                st', [add_entry_request entry])))"

text \<open>
  \<^verbatim>\<open>API.deleteEntry\<close> builds the url inside its \<^verbatim>\<open>try\<close>. An id without a string form
  throws there, before any request, and again in the \<^verbatim>\<open>catch\<close> block, where
  \<^verbatim>\<open>OfflineQueue.deleteEntry\<close> converts it anew.
\<close>

definition API_deleteEntry :: "env \<Rightarrow> storage \<Rightarrow> json \<Rightarrow> bool outcome" where
  "API_deleteEntry e st entryId =
     (case js_String e entryId of
        Inl err \<Rightarrow>
          (case OfflineQueue_deleteEntry e st entryId of
             Inl err' \<Rightarrow> (Inl err', st, [])
           | Inr st' \<Rightarrow> (Inr True, st', []))
      | Inr s \<Rightarrow>
          (case fetch e (delete_entry_request s) of
             Response ok b \<Rightarrow> (Inr ok, st, [delete_entry_request s])
           | Rejected \<Rightarrow>
               (case OfflineQueue_deleteEntry e st entryId of
                  Inl err \<Rightarrow> (Inl err, st, [delete_entry_request s])
                | Inr st' \<Rightarrow> (Inr True, st', [delete_entry_request s]))))"

text \<open>The \<^verbatim>\<open>try\<close> block of \<^verbatim>\<open>API.addProduct\<close>: \<^verbatim>\<open>result.product\<close>, or what is thrown.\<close>

definition createProduct :: "env \<Rightarrow> obj \<Rightarrow> js_error + js_value" where
  "createProduct e product =
     (case fetch e (add_product_request product) of
        Rejected \<Rightarrow> Inl NetworkError
      | Response ok b \<Rightarrow>
          (if ok
           then (case JSON_parse b of
                   Inl err \<Rightarrow> Inl err
                 | Inr result \<Rightarrow> get_prop result ''product'')
           else Inl (Error ''Add product failed'')))"

definition API_addProduct :: "env \<Rightarrow> storage \<Rightarrow> obj \<Rightarrow> js_value outcome" where
  "API_addProduct e st product =
     (case createProduct e product of
        Inr v \<Rightarrow> (Inr v, st, [add_product_request product])
      | Inl err \<Rightarrow>
          (case OfflineQueue_addProduct e st product of
             Inl err' \<Rightarrow> (Inl err', st, [add_product_request product])
           | Inr (tempId, product', st') \<Rightarrow>
               (Inr (Some (JObj (AList.update ''_offline'' (JBool True)
                                   (AList.update ''id'' (JStr tempId) product')))),
                st', [add_product_request product])))"

section \<open>Vocabulary of the properties\<close>

text \<open>
  The list a queue holds under one of its four names, when the queue is an object and the
  property is an array.
\<close>

definition queue_list :: "json \<Rightarrow> string \<Rightarrow> json list option" where
  "queue_list queue k = (case array_prop queue k of Inl err \<Rightarrow> None | Inr xs \<Rightarrow> Some xs)"

text \<open>A structurally valid queue has a list under each of the four names.\<close>

definition structurally_valid :: "json \<Rightarrow> bool" where
  "structurally_valid queue =
     (queue_list queue ''new_entries'' \<noteq> None \<and> queue_list queue ''deleted_entries'' \<noteq> None \<and>
      queue_list queue ''new_products'' \<noteq> None \<and> queue_list queue ''deleted_products'' \<noteq> None)"

text \<open>The queued item \<open>x\<close> carries the temp id \<open>t\<close>.\<close>

fun has_tempId :: "json \<Rightarrow> json \<Rightarrow> bool" where
  "has_tempId t (JObj ps) = strict_equal (map_of ps ''_tempId'') t"
| "has_tempId t x = False"

text \<open>
  Environments for the examples: a network, a storage that takes every write or none, and
  a clock reading. The two date built-ins are right for one instant only, one second after
  the epoch; the examples stamp and read back no other, and consult neither of the other
  two built-ins.
\<close>

definition epoch_second :: string where
  "epoch_second = ''1970-01-01T00:00:01.000Z''"

definition example_env :: "(request \<Rightarrow> fetch_outcome) \<Rightarrow> bool \<Rightarrow> int \<Rightarrow> env" where
  "example_env net writable t =
     \<lparr>now = t, fetch = net, setItem_ok = (\<lambda>k v. writable),
      toISOString = (\<lambda>n. epoch_second),
      Date_getTime = (\<lambda>v. if v = JStr epoch_second then Some 1000 else None),
      String_other = (\<lambda>v. []),
      coerced_gt_zero = (\<lambda>v. False)\<rparr>"

definition apple :: obj where
  "apple = [(''product'', JStr ''apple''), (''weight'', JNum 150)]"

section \<open>Lemmas on the storage and the queue\<close>

lemma get_missing: "st QUEUE_KEY = None \<Longrightarrow> OfflineQueue_get st = empty_queue"
  by (simp add: OfflineQueue_get_def)

lemma get_unparsable: "st QUEUE_KEY = Some Unparsable \<Longrightarrow> OfflineQueue_get st = empty_queue"
  by (simp add: OfflineQueue_get_def JSON_parse_def)

lemma get_doc: "st QUEUE_KEY = Some (Doc q) \<Longrightarrow> OfflineQueue_get st = q"
  by (simp add: OfflineQueue_get_def JSON_parse_def)

lemma get_after_write: "OfflineQueue_get (st(QUEUE_KEY \<mapsto> Doc q)) = q"
  by (simp add: OfflineQueue_get_def JSON_parse_def)

lemma get_after_remove: "OfflineQueue_get (st(QUEUE_KEY := None)) = empty_queue"
  by (simp add: OfflineQueue_get_def)

lemma set_accepted:
  "setItem_ok e QUEUE_KEY (Doc q) \<Longrightarrow> OfflineQueue_set e st q = Inr (st(QUEUE_KEY \<mapsto> Doc q))"
  by (simp add: OfflineQueue_set_def localStorage_setItem_def JSON_stringify_def)

lemma set_refused:
  "\<not> setItem_ok e QUEUE_KEY (Doc q) \<Longrightarrow> OfflineQueue_set e st q = Inl QuotaExceededError"
  by (simp add: OfflineQueue_set_def localStorage_setItem_def JSON_stringify_def)

lemma queue_list_Some:
  "queue_list q k = Some xs \<longleftrightarrow> (\<exists>ps. q = JObj ps \<and> map_of ps k = Some (JArr xs))"
  by (cases q) (auto simp: queue_list_def split: option.splits json.splits)

lemma queue_list_set_prop_same:
  "queue_list q k = Some xs \<Longrightarrow> queue_list (set_prop q k (JArr ys)) k = Some ys"
  by (auto simp: queue_list_Some update_conv')


lemma get_prop_set_prop_other:
  "k' \<noteq> k \<Longrightarrow> get_prop (set_prop q k v) k' = get_prop q k'"
  by (cases q) (auto simp: update_conv')

lemma array_prop_queue_list: "queue_list q k = Some xs \<Longrightarrow> array_prop q k = Inr xs"
  by (auto simp: queue_list_def split: sum.splits)

lemma array_prop_no_list: "queue_list q k = None \<Longrightarrow> \<exists>err. array_prop q k = Inl err"
  by (auto simp: queue_list_def split: sum.splits)

lemma other_tempId_eq:
  "x \<noteq> JNull \<Longrightarrow> other_tempId t x = Inr (\<not> has_tempId t x)"
  by (cases x) (simp_all add: other_tempId_def)

lemma filter_other_tempId:
  "JNull \<notin> set es \<Longrightarrow>
   Array_filter (other_tempId t) es = Inr (filter (\<lambda>x. \<not> has_tempId t x) es)"
proof (induction es)
  case Nil
  then show ?case by simp
next
  case (Cons x es)
  then have "x \<noteq> JNull"
    and IH: "Array_filter (other_tempId t) es = Inr (filter (\<lambda>x. \<not> has_tempId t x) es)"
    by auto
  then show ?case
    by (simp add: other_tempId_eq)
qed

lemma startsWith_temp_id: "startsWith (temp_id e) ''temp_''"
  by (simp add: startsWith_def temp_id_def)

lemma deleteEntry_other_id:
  assumes "js_String e entryId = Inr s"
    and "\<not> startsWith s ''temp_''"
    and "queue_list (OfflineQueue_get st) ''deleted_entries'' = Some ds"
    and "setItem_ok e QUEUE_KEY
           (Doc (set_prop (OfflineQueue_get st) ''deleted_entries'' (JArr (ds @ [entryId]))))"
  shows "OfflineQueue_deleteEntry e st entryId =
         Inr (st(QUEUE_KEY \<mapsto>
                Doc (set_prop (OfflineQueue_get st) ''deleted_entries'' (JArr (ds @ [entryId])))))"
  using assms
  by (simp add: OfflineQueue_deleteEntry_def array_prop_queue_list set_accepted)

lemma deleteEntry_temp_id:
  assumes "js_String e entryId = Inr s"
    and "startsWith s ''temp_''"
    and "queue_list (OfflineQueue_get st) ''new_entries'' = Some es"
    and "JNull \<notin> set es"
    and "setItem_ok e QUEUE_KEY
           (Doc (set_prop (OfflineQueue_get st) ''new_entries''
                   (JArr (filter (\<lambda>x. \<not> has_tempId entryId x) es))))"
  shows "OfflineQueue_deleteEntry e st entryId =
         Inr (st(QUEUE_KEY \<mapsto>
                Doc (set_prop (OfflineQueue_get st) ''new_entries''
                       (JArr (filter (\<lambda>x. \<not> has_tempId entryId x) es)))))"
  using assms
  by (simp add: OfflineQueue_deleteEntry_def array_prop_queue_list filter_other_tempId set_accepted)

lemma addEntry_queued:
  assumes "queue_list (OfflineQueue_get st) ''new_entries'' = Some es"
    and "setItem_ok e QUEUE_KEY
           (Doc (set_prop (OfflineQueue_get st) ''new_entries''
                   (JArr (es @ [JObj (AList.update ''_tempId'' (JStr (temp_id e)) entry)]))))"
  shows "OfflineQueue_addEntry e st entry =
         Inr (temp_id e, AList.update ''_tempId'' (JStr (temp_id e)) entry,
              st(QUEUE_KEY \<mapsto>
                Doc (set_prop (OfflineQueue_get st) ''new_entries''
                       (JArr (es @ [JObj (AList.update ''_tempId'' (JStr (temp_id e)) entry)])))))"
  using assms
  by (simp add: OfflineQueue_addEntry_def Let_def array_prop_queue_list set_accepted)

lemma or_else_False:
  "or_else a b = Inr False \<longleftrightarrow> a = Inr False \<and> b = Inr False"
  by (cases "(a, b)" rule: or_else.cases) auto

lemma list_nonempty_list:
  "queue_list q k = Some xs \<Longrightarrow> list_nonempty e q k = Inr (xs \<noteq> [])"
  by (auto simp: queue_list_Some list_nonempty_def)

text \<open>On a queue that holds its four lists, \<^verbatim>\<open>hasChanges()\<close> says whether one is non-empty.\<close>

lemma hasChanges_lists:
  assumes "queue_list (OfflineQueue_get st) ''new_entries'' = Some ne"
    and "queue_list (OfflineQueue_get st) ''deleted_entries'' = Some de"
    and "queue_list (OfflineQueue_get st) ''new_products'' = Some np"
    and "queue_list (OfflineQueue_get st) ''deleted_products'' = Some dp"
  shows "OfflineQueue_hasChanges e st = Inr (ne \<noteq> [] \<or> de \<noteq> [] \<or> np \<noteq> [] \<or> dp \<noteq> [])"
proof -
  have or_else_Inr: "or_else (Inr a) (Inr b) = Inr (a \<or> b)" for a b
    by (cases a) simp_all
  show ?thesis
    using assms
    by (simp add: OfflineQueue_hasChanges_def Let_def list_nonempty_list or_else_Inr)
qed

lemma hasChanges_False_new_entries:
  assumes "OfflineQueue_hasChanges e st = Inr False"
    and "queue_list (OfflineQueue_get st) ''new_entries'' = Some es"
  shows "es = []"
proof -
  from assms(1) have "list_nonempty e (OfflineQueue_get st) ''new_entries'' = Inr False"
    by (simp add: OfflineQueue_hasChanges_def Let_def or_else_False)
  with assms(2) show ?thesis
    by (simp add: list_nonempty_list)
qed

lemma hasChanges_cong:
  assumes "OfflineQueue_get st = JObj ps" and "OfflineQueue_get st' = JObj ps'"
    and "map_of ps = map_of ps'"
  shows "OfflineQueue_hasChanges e st = OfflineQueue_hasChanges e st'"
  using assms by (simp add: OfflineQueue_hasChanges_def Let_def list_nonempty_def)

lemma hasChanges_empty: "OfflineQueue_hasChanges e (st(QUEUE_KEY := None)) = Inr False"
  by (simp add: OfflineQueue_hasChanges_def get_after_remove empty_queue_def list_nonempty_def)

section \<open>Lemmas on the requests and their outcomes\<close>

text \<open>What each request is, field by field.\<close>

lemma request_shapes:
  "sync_request = \<lparr>url = ''/api/sync'', http_method = ''GET'', headers = [], body = None\<rparr>"
  "push_request queue =
     \<lparr>url = ''/api/sync'', http_method = ''POST'',
      headers = [(''Content-Type'', ''application/json'')], body = Some (Doc queue)\<rparr>"
  "add_entry_request entry =
     \<lparr>url = ''/api/add_entry'', http_method = ''POST'',
      headers = [(''Content-Type'', ''application/json'')], body = Some (Doc (JObj entry))\<rparr>"
  "delete_entry_request s =
     \<lparr>url = ''/api/delete_entry/'' @ s, http_method = ''DELETE'', headers = [], body = None\<rparr>"
  "add_product_request product =
     \<lparr>url = ''/api/add_product'', http_method = ''POST'',
      headers = [(''Content-Type'', ''application/json'')], body = Some (Doc (JObj product))\<rparr>"
  by (simp_all add: sync_request_def push_request_def add_entry_request_def
      delete_entry_request_def add_product_request_def json_headers_def JSON_stringify_def)

lemma createEntry_fails_iff:
  "(\<exists>err. createEntry e entry = Inl err) \<longleftrightarrow>
   fetch e (add_entry_request entry) = Rejected \<or>
   (\<exists>b. fetch e (add_entry_request entry) = Response False b) \<or>
   fetch e (add_entry_request entry) = Response True Unparsable \<or>
   fetch e (add_entry_request entry) = Response True (Doc JNull)"
proof (cases "fetch e (add_entry_request entry)")
  case Rejected
  then show ?thesis by (simp add: createEntry_def)
next
  case (Response ok b)
  show ?thesis
  proof (cases b)
    case Unparsable
    with Response show ?thesis by (simp add: createEntry_def JSON_parse_def)
  next
    case (Doc v)
    with Response show ?thesis by (cases v) (simp_all add: createEntry_def JSON_parse_def)
  qed
qed

lemma pull_succeeds_iff:
  "pull e = Inr result \<longleftrightarrow>
   fetch e sync_request = Response True (Doc (JObj result)) \<and>
   truthy_value (map_of result ''success'')"
proof (cases "fetch e sync_request")
  case Rejected
  then show ?thesis by (simp add: pull_def)
next
  case (Response ok b)
  show ?thesis
  proof (cases b)
    case Unparsable
    with Response show ?thesis by (simp add: pull_def JSON_parse_def)
  next
    case (Doc v)
    with Response show ?thesis
      by (cases v) (auto simp: pull_def JSON_parse_def split: option.splits sum.splits)
  qed
qed

lemma push_iff: "push e queue \<longleftrightarrow> (\<exists>b. fetch e (push_request queue) = Response True b)"
  by (cases "fetch e (push_request queue)") (auto simp: push_def)

lemma deleteEntry_response:
  "js_String e entryId = Inr s \<Longrightarrow> fetch e (delete_entry_request s) = Response ok b \<Longrightarrow>
   API_deleteEntry e st entryId = (Inr ok, st, [delete_entry_request s])"
  by (simp add: API_deleteEntry_def)

text \<open>An id without a string form: the promise is rejected and no request is sent.\<close>

lemma deleteEntry_no_string_form:
  "js_String e entryId = Inl err \<Longrightarrow> API_deleteEntry e st entryId = (Inl err, st, [])"
  by (simp add: API_deleteEntry_def OfflineQueue_deleteEntry_def)

lemma addEntry_write_refused:
  assumes "createEntry e entry = Inl err"
    and "queue_list (OfflineQueue_get st) ''new_entries'' = Some es"
    and "\<And>v. \<not> setItem_ok e QUEUE_KEY v"
  shows "API_addEntry e st entry = (Inl QuotaExceededError, st, [add_entry_request entry])"
  using assms
  by (simp add: API_addEntry_def OfflineQueue_addEntry_def Let_def array_prop_queue_list
      OfflineQueue_set_def localStorage_setItem_def)

lemma deleteEntry_write_refused:
  assumes "js_String e entryId = Inr s"
    and "fetch e (delete_entry_request s) = Rejected"
    and "\<not> startsWith s ''temp_''"
    and "queue_list (OfflineQueue_get st) ''deleted_entries'' = Some ds"
    and "\<And>v. \<not> setItem_ok e QUEUE_KEY v"
  shows "API_deleteEntry e st entryId = (Inl QuotaExceededError, st, [delete_entry_request s])"
  using assms
  by (simp add: API_deleteEntry_def OfflineQueue_deleteEntry_def Let_def array_prop_queue_list
      OfflineQueue_set_def localStorage_setItem_def)

lemma syncAll_resolves: "\<exists>v. fst (API_syncAll e st) = Inr v"
  by (simp add: API_syncAll_def split: sum.splits option.splits prod.splits)

lemma pushChanges_ill_shaped_queue:
  "API_pushChanges e (st(QUEUE_KEY \<mapsto> Doc (JObj []))) =
     (Inl TypeError, st(QUEUE_KEY \<mapsto> Doc (JObj [])), [])"
  by (simp add: API_pushChanges_def OfflineQueue_hasChanges_def get_after_write list_nonempty_def)

section \<open>Lemmas on the snapshot\<close>

lemma strict_equal_JStr: "strict_equal x (JStr s) \<longleftrightarrow> x = Some (JStr s)"
  by (cases "(x, JStr s)" rule: strict_equal.cases) auto

lemma AppCache_get_Some:
  "AppCache_get st = Some snap \<longleftrightarrow>
   st CACHE_KEY = Some (Doc (JObj snap)) \<and> map_of snap ''version'' = Some (JStr CACHE_VERSION)"
  by (auto simp: AppCache_get_def JSON_parse_def strict_equal_JStr
      split: option.splits json_text.splits json.splits)

lemma AppCache_get_None:
  "AppCache_get st = None \<longleftrightarrow>
   (\<nexists>snap. st CACHE_KEY = Some (Doc (JObj snap)) \<and>
      map_of snap ''version'' = Some (JStr CACHE_VERSION))"
  using AppCache_get_Some [of st] by (cases "AppCache_get st") auto

text \<open>When \<^verbatim>\<open>AppCache.isValid()\<close> returns true, when it throws.\<close>

lemma AppCache_isValid_True:
  "AppCache_isValid e st = Inr True \<longleftrightarrow>
   (\<exists>snap c t. st CACHE_KEY = Some (Doc (JObj snap)) \<and>
      map_of snap ''version'' = Some (JStr CACHE_VERSION) \<and>
      map_of snap ''cachedAt'' = Some c \<and> truthy c \<and> \<not> conversion_throws c \<and>
      Date_getTime e c = Some t \<and> now e - t < 5 * 60 * 1000)"
proof (cases "AppCache_get st")
  case None
  then show ?thesis
    using AppCache_get_None [of st] by (auto simp: AppCache_isValid_def)
next
  case (Some snap)
  then have "st CACHE_KEY = Some (Doc (JObj snap))"
    and "map_of snap ''version'' = Some (JStr CACHE_VERSION)"
    by (simp_all add: AppCache_get_Some)
  with Some show ?thesis
    by (auto simp: AppCache_isValid_def fiveMinutes_def split: option.splits)
qed

lemma AppCache_isValid_throws:
  "(\<exists>err. AppCache_isValid e st = Inl err) \<longleftrightarrow>
   (\<exists>snap c. st CACHE_KEY = Some (Doc (JObj snap)) \<and>
      map_of snap ''version'' = Some (JStr CACHE_VERSION) \<and>
      map_of snap ''cachedAt'' = Some c \<and> truthy c \<and> conversion_throws c)"
proof (cases "AppCache_get st")
  case None
  then show ?thesis
    using AppCache_get_None [of st] by (auto simp: AppCache_isValid_def)
next
  case (Some snap)
  then have "st CACHE_KEY = Some (Doc (JObj snap))"
    and "map_of snap ''version'' = Some (JStr CACHE_VERSION)"
    by (simp_all add: AppCache_get_Some)
  with Some show ?thesis
    by (auto simp: AppCache_isValid_def split: option.splits)
qed

lemma AppCache_set_accepted:
  assumes "setItem_ok e CACHE_KEY
             (Doc (JObj (AList.update ''cachedAt'' (JStr (toISOString e (now e)))
                           (AList.update ''version'' (JStr CACHE_VERSION) data))))"
  shows "AppCache_set e st data =
         (AList.update ''cachedAt'' (JStr (toISOString e (now e)))
            (AList.update ''version'' (JStr CACHE_VERSION) data),
          st(CACHE_KEY \<mapsto>
             Doc (JObj (AList.update ''cachedAt'' (JStr (toISOString e (now e)))
                          (AList.update ''version'' (JStr CACHE_VERSION) data)))))"
  using assms by (simp add: AppCache_set_def Let_def localStorage_setItem_def JSON_stringify_def)

lemma AppCache_set_refused:
  assumes "\<not> setItem_ok e CACHE_KEY
             (Doc (JObj (AList.update ''cachedAt'' (JStr (toISOString e (now e)))
                           (AList.update ''version'' (JStr CACHE_VERSION) data))))"
  shows "snd (AppCache_set e st data) = st"
  using assms by (simp add: AppCache_set_def Let_def localStorage_setItem_def JSON_stringify_def)

lemma AppCache_set_data: "map_of (fst (AppCache_set e st data)) ''data'' = map_of data ''data''"
  by (simp add: AppCache_set_def Let_def update_conv' split: sum.splits)

section \<open>Lemmas on the string form of numbers\<close>

lemma decimal_head: "\<exists>d cs. d < 10 \<and> decimal n = digit_char d # cs"
proof (induction n rule: decimal.induct)
  case (1 n)
  show ?case
  proof (cases "n < 10")
    case True
    then have "decimal n = [digit_char n]"
      by (subst decimal.simps) simp
    with True show ?thesis by blast
  next
    case False
    with "1.IH" obtain d cs where "d < 10" and "decimal (n div 10) = digit_char d # cs"
      by auto
    moreover from False have "decimal n = decimal (n div 10) @ [digit_char (n mod 10)]"
      by (subst decimal.simps) simp
    ultimately show ?thesis by auto
  qed
qed

lemma digit_char_not_t: "d < 10 \<Longrightarrow> digit_char d \<noteq> CHR ''t''"
proof -
  assume "d < 10"
  then have "d \<in> {0, 1, 2, 3, 4, 5, 6, 7, 8, 9}"
    by auto
  then show ?thesis
    by (auto simp: digit_char_def)
qed

lemma digits_no_temp_id: "\<not> startsWith (digits n) ''temp_''"
proof -
  obtain d cs where "d < 10" and "decimal (nat \<bar>n\<bar>) = digit_char d # cs"
    using decimal_head by blast
  then show ?thesis
    using digit_char_not_t [of d]
    by (cases "n < 0") (auto simp: startsWith_def digits_def abs_if)
qed

text \<open>An id that is an integer a double holds exactly never has the temp-id prefix.\<close>

lemma number_is_no_temp_id:
  "\<bar>n\<bar> \<le> 9007199254740992 \<Longrightarrow>
   js_String e (JNum n) = Inr (digits n) \<and> \<not> startsWith (digits n) ''temp_''"
  by (simp add: Number_toString_def digits_no_temp_id)

section \<open>The properties\<close>

text \<open>
  Claim C1 does not hold of the code. \<^verbatim>\<open>AppCache.set\<close> catches a refused write, but
  \<^verbatim>\<open>OfflineQueue.set\<close> does not: with the network down and the storage full, the promise
  of \<^verbatim>\<open>API.addEntry\<close> is rejected with the storage error instead of resolving to a value.
\<close>

theorem addEntry_rejected_when_storage_full:
  "API_addEntry (example_env (\<lambda>r. Rejected) False 1000) Map.empty apple =
     (Inl QuotaExceededError, Map.empty, [add_entry_request apple])"
proof -
  let ?e = "example_env (\<lambda>r. Rejected) False 1000"
  have "createEntry ?e apple = Inl NetworkError"
    by (simp add: createEntry_def example_env_def)
  moreover have "queue_list (OfflineQueue_get Map.empty) ''new_entries'' = Some []"
    by (simp add: get_missing empty_queue_def queue_list_def)
  moreover have "\<And>v. \<not> setItem_ok ?e QUEUE_KEY v"
    by (simp add: example_env_def)
  ultimately show ?thesis
    by (rule addEntry_write_refused)
qed




text \<open>
  Claim C3. For every pending queue that holds its four lists, one of them non-empty,
  \<^verbatim>\<open>API.pushChanges\<close> sends exactly one request: the POST to \<^verbatim>\<open>/api/sync\<close> whose body is
  the whole queue. If a response with \<^verbatim>\<open>ok\<close> arrives, it resolves to true and the queue
  item is removed, after which the queue reads as the empty queue, its four lists empty
  and \<^verbatim>\<open>hasChanges()\<close> false. In every other case (the request rejected, or a response
  that is not 2xx) it resolves to false and the storage is exactly what it was.
\<close>

theorem pushChanges_all_or_nothing:
  assumes "queue_list (OfflineQueue_get st) ''new_entries'' = Some ne"
    and "queue_list (OfflineQueue_get st) ''deleted_entries'' = Some de"
    and "queue_list (OfflineQueue_get st) ''new_products'' = Some np"
    and "queue_list (OfflineQueue_get st) ''deleted_products'' = Some dp"
    and "ne \<noteq> [] \<or> de \<noteq> [] \<or> np \<noteq> [] \<or> dp \<noteq> []"
  shows "(let req = \<lparr>url = ''/api/sync'', http_method = ''POST'',
                     headers = [(''Content-Type'', ''application/json'')],
                     body = Some (Doc (OfflineQueue_get st))\<rparr>
          in API_pushChanges e st =
               (if (\<exists>b. fetch e req = Response True b)
                then (Inr True, st(QUEUE_KEY := None), [req])
                else (Inr False, st, [req]))) \<and>
         OfflineQueue_get (st(QUEUE_KEY := None)) =
           JObj [(''new_entries'', JArr []), (''deleted_entries'', JArr []),
                 (''new_products'', JArr []), (''deleted_products'', JArr [])] \<and>
         queue_list (OfflineQueue_get (st(QUEUE_KEY := None))) ''new_entries'' = Some [] \<and>
         queue_list (OfflineQueue_get (st(QUEUE_KEY := None))) ''deleted_entries'' = Some [] \<and>
         queue_list (OfflineQueue_get (st(QUEUE_KEY := None))) ''new_products'' = Some [] \<and>
         queue_list (OfflineQueue_get (st(QUEUE_KEY := None))) ''deleted_products'' = Some [] \<and>
         OfflineQueue_hasChanges e (st(QUEUE_KEY := None)) = Inr False"
proof -
  have changes: "OfflineQueue_hasChanges e st = Inr True"
    using assms by (simp add: hasChanges_lists)
  have "API_pushChanges e st =
          (if (\<exists>b. fetch e (push_request (OfflineQueue_get st)) = Response True b)
           then (Inr True, st(QUEUE_KEY := None), [push_request (OfflineQueue_get st)])
           else (Inr False, st, [push_request (OfflineQueue_get st)]))"
    using changes
    by (simp add: API_pushChanges_def Let_def OfflineQueue_clear_def localStorage_removeItem_def
        push_iff)
  moreover have "queue_list empty_queue ''new_entries'' = Some []"
    and "queue_list empty_queue ''deleted_entries'' = Some []"
    and "queue_list empty_queue ''new_products'' = Some []"
    and "queue_list empty_queue ''deleted_products'' = Some []"
    by (simp_all add: empty_queue_def queue_list_def)
  ultimately show ?thesis
    by (simp add: get_after_remove hasChanges_empty request_shapes Let_def)
      (simp add: empty_queue_def)
qed

theorem pushChanges_all_or_nothing_witness:
  "API_pushChanges (example_env (\<lambda>r. Response True Unparsable) True 1000)
     (Map.empty(QUEUE_KEY \<mapsto> Doc (JObj [(''new_entries'', JArr []), (''deleted_entries'', JArr []),
        (''new_products'', JArr []), (''deleted_products'', JArr [JNum 3])]))) =
     (Inr True, Map.empty,
      [\<lparr>url = ''/api/sync'', http_method = ''POST'',
        headers = [(''Content-Type'', ''application/json'')],
        body = Some (Doc (JObj [(''new_entries'', JArr []), (''deleted_entries'', JArr []),
          (''new_products'', JArr []), (''deleted_products'', JArr [JNum 3])]))\<rparr>]) \<and>
   API_pushChanges (example_env (\<lambda>r. Response False Unparsable) True 1000)
     (Map.empty(QUEUE_KEY \<mapsto> Doc (JObj [(''new_entries'', JArr []), (''deleted_entries'', JArr []),
        (''new_products'', JArr []), (''deleted_products'', JArr [JNum 3])]))) =
     (Inr False,
      Map.empty(QUEUE_KEY \<mapsto> Doc (JObj [(''new_entries'', JArr []), (''deleted_entries'', JArr []),
        (''new_products'', JArr []), (''deleted_products'', JArr [JNum 3])])),
      [\<lparr>url = ''/api/sync'', http_method = ''POST'',
        headers = [(''Content-Type'', ''application/json'')],
        body = Some (Doc (JObj [(''new_entries'', JArr []), (''deleted_entries'', JArr []),
          (''new_products'', JArr []), (''deleted_products'', JArr [JNum 3])]))\<rparr>]) \<and>
   API_pushChanges (example_env (\<lambda>r. Rejected) True 1000)
     (Map.empty(QUEUE_KEY \<mapsto> Doc (JObj [(''new_entries'', JArr []), (''deleted_entries'', JArr []),
        (''new_products'', JArr []), (''deleted_products'', JArr [JNum 3])]))) =
     (Inr False,
      Map.empty(QUEUE_KEY \<mapsto> Doc (JObj [(''new_entries'', JArr []), (''deleted_entries'', JArr []),
        (''new_products'', JArr []), (''deleted_products'', JArr [JNum 3])])),
      [\<lparr>url = ''/api/sync'', http_method = ''POST'',
        headers = [(''Content-Type'', ''application/json'')],
        body = Some (Doc (JObj [(''new_entries'', JArr []), (''deleted_entries'', JArr []),
          (''new_products'', JArr []), (''deleted_products'', JArr [JNum 3])]))\<rparr>])"
proof -
  let ?q = "JObj [(''new_entries'', JArr []), (''deleted_entries'', JArr []),
        (''new_products'', JArr []), (''deleted_products'', JArr [JNum 3])]"
  let ?st = "Map.empty(QUEUE_KEY \<mapsto> Doc ?q)"
  have ne: "queue_list (OfflineQueue_get ?st) ''new_entries'' = Some []"
    and de: "queue_list (OfflineQueue_get ?st) ''deleted_entries'' = Some []"
    and np: "queue_list (OfflineQueue_get ?st) ''new_products'' = Some []"
    and dp: "queue_list (OfflineQueue_get ?st) ''deleted_products'' = Some [JNum 3]"
    by (simp_all add: get_after_write queue_list_def)
  have some: "[] \<noteq> [] \<or> [] \<noteq> [] \<or> [] \<noteq> [] \<or> [JNum 3] \<noteq> []"
    by simp
  note run = pushChanges_all_or_nothing [OF ne de np dp some, THEN conjunct1]
  have "API_pushChanges (example_env (\<lambda>r. Response True Unparsable) True 1000) ?st =
     (Inr True, Map.empty,
      [\<lparr>url = ''/api/sync'', http_method = ''POST'',
        headers = [(''Content-Type'', ''application/json'')], body = Some (Doc ?q)\<rparr>])"
    using run [of "example_env (\<lambda>r. Response True Unparsable) True 1000"]
    by (simp add: get_after_write Let_def example_env_def)
  moreover have "API_pushChanges (example_env (\<lambda>r. Response False Unparsable) True 1000) ?st =
     (Inr False, ?st,
      [\<lparr>url = ''/api/sync'', http_method = ''POST'',
        headers = [(''Content-Type'', ''application/json'')], body = Some (Doc ?q)\<rparr>])"
    using run [of "example_env (\<lambda>r. Response False Unparsable) True 1000"]
    by (simp add: get_after_write Let_def example_env_def)
  moreover have "API_pushChanges (example_env (\<lambda>r. Rejected) True 1000) ?st =
     (Inr False, ?st,
      [\<lparr>url = ''/api/sync'', http_method = ''POST'',
        headers = [(''Content-Type'', ''application/json'')], body = Some (Doc ?q)\<rparr>])"
    using run [of "example_env (\<lambda>r. Rejected) True 1000"]
    by (simp add: get_after_write Let_def example_env_def)
  ultimately show ?thesis
    by simp
qed

text \<open>
  Claim C4, as stated, fails. Nothing checks the shape of the stored queue: when the
  stored text parses but holds no \<^verbatim>\<open>new_entries\<close> list (here the text \<^verbatim>\<open>{}\<close>), the
  \<^verbatim>\<open>push\<close> in \<^verbatim>\<open>OfflineQueue.addEntry\<close> throws, and \<^verbatim>\<open>API.addEntry\<close>, with the create
  request failed, is rejected instead of resolving to a provisional entry.
\<close>

theorem addEntry_no_list_counterexample:
  "API_addEntry (example_env (\<lambda>r. Rejected) True 1000) (Map.empty(QUEUE_KEY \<mapsto> Doc (JObj [])))
     apple =
     (Inl TypeError, Map.empty(QUEUE_KEY \<mapsto> Doc (JObj [])),
      [\<lparr>url = ''/api/add_entry'', http_method = ''POST'',
        headers = [(''Content-Type'', ''application/json'')],
        body = Some (Doc (JObj [(''product'', JStr ''apple''), (''weight'', JNum 150)]))\<rparr>])"
  by (simp add: API_addEntry_def createEntry_def example_env_def OfflineQueue_addEntry_def
      get_after_write request_shapes apple_def)

text \<open>
  Claim C4, amended. For every entry, when the create request fails (whatever the
  \<^verbatim>\<open>try\<close> block throws), the queue that \<^verbatim>\<open>OfflineQueue.get\<close> returns holds a
  \<^verbatim>\<open>new_entries\<close> list and the storage accepts the write of the extended queue,
  \<^verbatim>\<open>API.addEntry\<close> resolves to a copy of the entry (which by then carries its
  \<^verbatim>\<open>_tempId\<close>) with \<^verbatim>\<open>id\<close> set to the temp id and \<^verbatim>\<open>_offline\<close> set to true; the temp
  id is \<^verbatim>\<open>temp_\<close> followed by the clock reading; and \<^verbatim>\<open>new_entries\<close> has gained exactly
  that entry at its end, so from an empty queue it holds that one item.
\<close>

theorem addEntry_offline:
  assumes fail: "createEntry e entry = Inl err"
    and list: "queue_list (OfflineQueue_get st) ''new_entries'' = Some es"
    and w: "setItem_ok e QUEUE_KEY
              (Doc (set_prop (OfflineQueue_get st) ''new_entries''
                      (JArr (es @ [JObj (AList.update ''_tempId'' (JStr (temp_id e)) entry)]))))"
  shows "\<exists>st'. API_addEntry e st entry =
           (Inr (Some (JObj (AList.update ''_offline'' (JBool True)
                               (AList.update ''id'' (JStr (temp_id e))
                                  (AList.update ''_tempId'' (JStr (temp_id e)) entry))))),
            st',
            [\<lparr>url = ''/api/add_entry'', http_method = ''POST'',
              headers = [(''Content-Type'', ''application/json'')],
              body = Some (Doc (JObj entry))\<rparr>]) \<and>
         temp_id e = ''temp_'' @ Number_toString e (now e) \<and>
         (\<bar>now e\<bar> \<le> 9007199254740992 \<longrightarrow> temp_id e = ''temp_'' @ digits (now e)) \<and>
         startsWith (temp_id e) ''temp_'' \<and>
         queue_list (OfflineQueue_get st') ''new_entries'' =
           Some (es @ [JObj (AList.update ''_tempId'' (JStr (temp_id e)) entry)])"
proof -
  let ?entry' = "AList.update ''_tempId'' (JStr (temp_id e)) entry"
  let ?q' = "set_prop (OfflineQueue_get st) ''new_entries'' (JArr (es @ [JObj ?entry']))"
  have "OfflineQueue_addEntry e st entry = Inr (temp_id e, ?entry', st(QUEUE_KEY \<mapsto> Doc ?q'))"
    by (rule addEntry_queued [OF list w])
  with fail have main: "API_addEntry e st entry =
      (Inr (Some (JObj (AList.update ''_offline'' (JBool True)
                          (AList.update ''id'' (JStr (temp_id e)) ?entry')))),
       st(QUEUE_KEY \<mapsto> Doc ?q'), [add_entry_request entry])"
    by (simp add: API_addEntry_def)
  have queued: "queue_list ?q' ''new_entries'' = Some (es @ [JObj ?entry'])"
    by (rule queue_list_set_prop_same [OF list])
  show ?thesis
  proof (intro exI conjI)
    show "API_addEntry e st entry =
      (Inr (Some (JObj (AList.update ''_offline'' (JBool True)
                          (AList.update ''id'' (JStr (temp_id e)) ?entry')))),
       st(QUEUE_KEY \<mapsto> Doc ?q'),
       [\<lparr>url = ''/api/add_entry'', http_method = ''POST'',
              headers = [(''Content-Type'', ''application/json'')],
              body = Some (Doc (JObj entry))\<rparr>])"
      using main by (simp add: request_shapes)
    show "temp_id e = ''temp_'' @ Number_toString e (now e)"
      by (simp add: temp_id_def)
    show "\<bar>now e\<bar> \<le> 9007199254740992 \<longrightarrow> temp_id e = ''temp_'' @ digits (now e)"
      by (simp add: temp_id_def Number_toString_def)
    show "startsWith (temp_id e) ''temp_''"
      by (rule startsWith_temp_id)
    show "queue_list (OfflineQueue_get (st(QUEUE_KEY \<mapsto> Doc ?q'))) ''new_entries'' =
          Some (es @ [JObj ?entry'])"
      by (simp only: get_after_write queued)
  qed
qed

theorem addEntry_offline_witness:
  "createEntry (example_env (\<lambda>r. Rejected) True 1000) apple = Inl NetworkError \<and>
   queue_list (OfflineQueue_get Map.empty) ''new_entries'' = Some [] \<and>
   (\<exists>st'. API_addEntry (example_env (\<lambda>r. Rejected) True 1000) Map.empty apple =
            (Inr (Some (JObj [(''product'', JStr ''apple''), (''weight'', JNum 150),
                              (''_tempId'', JStr ''temp_1000''), (''id'', JStr ''temp_1000''),
                              (''_offline'', JBool True)])),
             st',
             [\<lparr>url = ''/api/add_entry'', http_method = ''POST'',
               headers = [(''Content-Type'', ''application/json'')],
               body = Some (Doc (JObj [(''product'', JStr ''apple''), (''weight'', JNum 150)]))\<rparr>]) \<and>
          queue_list (OfflineQueue_get st') ''new_entries'' =
            Some [JObj [(''product'', JStr ''apple''), (''weight'', JNum 150),
                        (''_tempId'', JStr ''temp_1000'')]])"
proof -
  let ?e = "example_env (\<lambda>r. Rejected) True 1000"
  have fail: "createEntry ?e apple = Inl NetworkError"
    by (simp add: createEntry_def example_env_def)
  have list: "queue_list (OfflineQueue_get Map.empty) ''new_entries'' = Some []"
    by (simp add: get_missing empty_queue_def queue_list_def)
  have w: "setItem_ok ?e QUEUE_KEY v" for v
    by (simp add: example_env_def)
  have t: "temp_id ?e = ''temp_1000''"
    by (simp add: temp_id_def example_env_def Number_toString_def digits_def decimal.simps
        digit_char_def)
  from addEntry_offline [OF fail list w] fail list show ?thesis
    unfolding t by (auto simp: apple_def request_shapes)
qed

text \<open>
  Claim C5, as stated, fails. Nothing checks what kind of value \<^verbatim>\<open>cachedAt\<close> is: for the
  malformed snapshot whose \<^verbatim>\<open>cachedAt\<close> is the object \<^verbatim>\<open>{"toString": 1}\<close>, under the
  current version, \<^verbatim>\<open>new Date(cached.cachedAt)\<close> throws and so does \<^verbatim>\<open>AppCache.isValid\<close>,
  where the claim has it return false.
\<close>

theorem isSnapshotValid_throws_counterexample:
  "AppCache_isValid (example_env (\<lambda>r. Rejected) True 2000)
     (Map.empty(CACHE_KEY \<mapsto>
        Doc (JObj [(''version'', JStr ''1.0''), (''cachedAt'', JObj [(''toString'', JNum 1)])]))) =
     Inl TypeError"
  by (simp add: AppCache_isValid_def AppCache_get_def JSON_parse_def CACHE_VERSION_def)

text \<open>
  Claim C5, amended. For every stored snapshot whose \<^verbatim>\<open>cachedAt\<close> is a date (a value
  that is truthy, converts to a primitive without throwing, and is read by \<^verbatim>\<open>new Date\<close> as
  an instant), \<^verbatim>\<open>AppCache.isValid\<close> returns true exactly when the \<^verbatim>\<open>version\<close> is the
  current one and the age, the clock minus \<^verbatim>\<open>cachedAt\<close>, is less than five minutes; at an
  age of exactly five minutes it returns false. It returns false as well when no snapshot
  is stored (no item, a text that does not parse, a value that is not an object) and when
  the stored snapshot is malformed in that it has no \<^verbatim>\<open>cachedAt\<close>, a falsy one, or one
  that converts without throwing but is no date.
\<close>

theorem isSnapshotValid_five_minutes:
  "(\<forall>snap c t.
      st CACHE_KEY = Some (Doc (JObj snap)) \<and> map_of snap ''cachedAt'' = Some c \<and> truthy c \<and>
      \<not> conversion_throws c \<and> Date_getTime e c = Some t \<longrightarrow>
      AppCache_isValid e st =
        Inr (map_of snap ''version'' = Some (JStr CACHE_VERSION) \<and> now e - t < 5 * 60 * 1000) \<and>
      (now e - t = 5 * 60 * 1000 \<longrightarrow> AppCache_isValid e st = Inr False)) \<and>
   ((\<nexists>snap. st CACHE_KEY = Some (Doc (JObj snap))) \<longrightarrow> AppCache_isValid e st = Inr False) \<and>
   (\<forall>snap. st CACHE_KEY = Some (Doc (JObj snap)) \<and>
      (map_of snap ''cachedAt'' = None \<or>
       (\<exists>c. map_of snap ''cachedAt'' = Some c \<and>
          (\<not> truthy c \<or> \<not> conversion_throws c \<and> Date_getTime e c = None))) \<longrightarrow>
      AppCache_isValid e st = Inr False)"
proof (intro conjI allI impI)
  fix snap c t
  assume h: "st CACHE_KEY = Some (Doc (JObj snap)) \<and> map_of snap ''cachedAt'' = Some c \<and>
      truthy c \<and> \<not> conversion_throws c \<and> Date_getTime e c = Some t"
  show valid: "AppCache_isValid e st =
        Inr (map_of snap ''version'' = Some (JStr CACHE_VERSION) \<and> now e - t < 5 * 60 * 1000)"
  proof (cases "map_of snap ''version'' = Some (JStr CACHE_VERSION)")
    case True
    with h have "AppCache_get st = Some snap"
      by (simp add: AppCache_get_Some)
    with h True show ?thesis
      by (simp add: AppCache_isValid_def fiveMinutes_def)
  next
    case False
    with h have "AppCache_get st = None"
      by (auto simp: AppCache_get_None)
    with False show ?thesis
      by (simp add: AppCache_isValid_def)
  qed
  assume "now e - t = 5 * 60 * 1000"
  with valid show "AppCache_isValid e st = Inr False"
    by simp
next
  assume "\<nexists>snap. st CACHE_KEY = Some (Doc (JObj snap))"
  then have "AppCache_get st = None"
    by (auto simp: AppCache_get_None)
  then show "AppCache_isValid e st = Inr False"
    by (simp add: AppCache_isValid_def)
next
  fix snap
  assume h: "st CACHE_KEY = Some (Doc (JObj snap)) \<and>
      (map_of snap ''cachedAt'' = None \<or>
       (\<exists>c. map_of snap ''cachedAt'' = Some c \<and>
          (\<not> truthy c \<or> \<not> conversion_throws c \<and> Date_getTime e c = None)))"
  show "AppCache_isValid e st = Inr False"
  proof (cases "AppCache_get st")
    case None
    then show ?thesis
      by (simp add: AppCache_isValid_def)
  next
    case (Some cached)
    with h have "cached = snap"
      by (simp add: AppCache_get_Some)
    with Some h show ?thesis
      by (auto simp: AppCache_isValid_def)
  qed
qed

theorem isSnapshotValid_five_minutes_witness:
  "AppCache_isValid (example_env (\<lambda>r. Rejected) True 300999)
     (Map.empty(CACHE_KEY \<mapsto>
        Doc (JObj [(''version'', JStr ''1.0''), (''cachedAt'', JStr epoch_second)]))) = Inr True \<and>
   AppCache_isValid (example_env (\<lambda>r. Rejected) True 301000)
     (Map.empty(CACHE_KEY \<mapsto>
        Doc (JObj [(''version'', JStr ''1.0''), (''cachedAt'', JStr epoch_second)]))) = Inr False \<and>
   AppCache_isValid (example_env (\<lambda>r. Rejected) True 2000)
     (Map.empty(CACHE_KEY \<mapsto>
        Doc (JObj [(''version'', JStr ''0.9''), (''cachedAt'', JStr epoch_second)]))) = Inr False \<and>
   AppCache_isValid (example_env (\<lambda>r. Rejected) True 2000) Map.empty = Inr False \<and>
   AppCache_isValid (example_env (\<lambda>r. Rejected) True 2000) (Map.empty(CACHE_KEY \<mapsto> Unparsable)) =
     Inr False \<and>
   AppCache_isValid (example_env (\<lambda>r. Rejected) True 2000)
     (Map.empty(CACHE_KEY \<mapsto> Doc (JObj [(''version'', JStr ''1.0'')]))) = Inr False \<and>
   AppCache_isValid (example_env (\<lambda>r. Rejected) True 2000)
     (Map.empty(CACHE_KEY \<mapsto>
        Doc (JObj [(''version'', JStr ''1.0''), (''cachedAt'', JStr ''yesterday'')]))) = Inr False"
proof -
  let ?snap = "[(''version'', JStr ''1.0''), (''cachedAt'', JStr epoch_second)]"
  let ?old = "[(''version'', JStr ''0.9''), (''cachedAt'', JStr epoch_second)]"
  let ?bare = "[(''version'', JStr ''1.0'')]"
  let ?nodate = "[(''version'', JStr ''1.0''), (''cachedAt'', JStr ''yesterday'')]"
  have date: "Date_getTime (example_env net w n) (JStr epoch_second) = Some 1000" for net w n
    by (simp add: example_env_def)
  have nodate: "Date_getTime (example_env net w n) (JStr ''yesterday'') = None" for net w n
    by (simp add: example_env_def epoch_second_def)
  have nonempty: "truthy (JStr epoch_second)"
    by (simp add: epoch_second_def)
  have fresh: "AppCache_isValid (example_env (\<lambda>r. Rejected) True 300999)
                 (Map.empty(CACHE_KEY \<mapsto> Doc (JObj ?snap))) = Inr True"
    using isSnapshotValid_five_minutes [of "Map.empty(CACHE_KEY \<mapsto> Doc (JObj ?snap))"
        "example_env (\<lambda>r. Rejected) True 300999", THEN conjunct1, rule_format,
        of ?snap "JStr epoch_second" 1000] date nonempty
    by (simp add: CACHE_VERSION_def example_env_def)
  have boundary: "AppCache_isValid (example_env (\<lambda>r. Rejected) True 301000)
                 (Map.empty(CACHE_KEY \<mapsto> Doc (JObj ?snap))) = Inr False"
    using isSnapshotValid_five_minutes [of "Map.empty(CACHE_KEY \<mapsto> Doc (JObj ?snap))"
        "example_env (\<lambda>r. Rejected) True 301000", THEN conjunct1, rule_format,
        of ?snap "JStr epoch_second" 1000] date nonempty
    by (simp add: CACHE_VERSION_def example_env_def)
  have version: "AppCache_isValid (example_env (\<lambda>r. Rejected) True 2000)
                 (Map.empty(CACHE_KEY \<mapsto> Doc (JObj ?old))) = Inr False"
    using isSnapshotValid_five_minutes [of "Map.empty(CACHE_KEY \<mapsto> Doc (JObj ?old))"
        "example_env (\<lambda>r. Rejected) True 2000", THEN conjunct1, rule_format,
        of ?old "JStr epoch_second" 1000] date nonempty
    by (simp add: CACHE_VERSION_def example_env_def)
  have missing: "AppCache_isValid (example_env (\<lambda>r. Rejected) True 2000) Map.empty = Inr False"
    using isSnapshotValid_five_minutes [of Map.empty "example_env (\<lambda>r. Rejected) True 2000",
        THEN conjunct2, THEN conjunct1]
    by simp
  have corrupt: "AppCache_isValid (example_env (\<lambda>r. Rejected) True 2000)
                   (Map.empty(CACHE_KEY \<mapsto> Unparsable)) = Inr False"
    using isSnapshotValid_five_minutes [of "Map.empty(CACHE_KEY \<mapsto> Unparsable)"
        "example_env (\<lambda>r. Rejected) True 2000", THEN conjunct2, THEN conjunct1]
    by simp
  have bare: "AppCache_isValid (example_env (\<lambda>r. Rejected) True 2000)
                   (Map.empty(CACHE_KEY \<mapsto> Doc (JObj ?bare))) = Inr False"
    using isSnapshotValid_five_minutes [of "Map.empty(CACHE_KEY \<mapsto> Doc (JObj ?bare))"
        "example_env (\<lambda>r. Rejected) True 2000", THEN conjunct2, THEN conjunct2, rule_format,
        of ?bare]
    by simp
  have undated: "AppCache_isValid (example_env (\<lambda>r. Rejected) True 2000)
                   (Map.empty(CACHE_KEY \<mapsto> Doc (JObj ?nodate))) = Inr False"
    using isSnapshotValid_five_minutes [of "Map.empty(CACHE_KEY \<mapsto> Doc (JObj ?nodate))"
        "example_env (\<lambda>r. Rejected) True 2000", THEN conjunct2, THEN conjunct2, rule_format,
        of ?nodate] nodate
    by simp
  from fresh boundary version missing corrupt bare undated show ?thesis
    by simp
qed

text \<open>
  Claim C6, as stated, fails. \<^verbatim>\<open>AppCache.set\<close> catches a refused write and goes on: with
  the storage full, a successful pull resolves to the data of the result, but nothing is
  stored.
\<close>

theorem syncAll_not_stored_counterexample:
  "API_syncAll
     (example_env (\<lambda>r. Response True (Doc (JObj [(''success'', JBool True),
        (''data'', JStr ''fresh'')]))) False 1000) Map.empty =
     (Inr (Some (JStr ''fresh'')), Map.empty,

          [\<lparr>url = ''/api/sync'', http_method = ''GET'', headers = [], body = None\<rparr>]) \<and>
   AppCache_get Map.empty = None"
  by (simp add: API_syncAll_def pull_def example_env_def JSON_parse_def truthy_value_def
      AppCache_set_def localStorage_setItem_def update_conv' request_shapes AppCache_get_def)

text \<open>
  Claim C6, amended. When the pull fails (whatever the \<^verbatim>\<open>try\<close> block of
  \<^verbatim>\<open>API.syncAll\<close> throws), the storage is left as it is, and the call resolves to the
  \<^verbatim>\<open>data\<close> of the stored snapshot if one with the current version is stored, whatever
  its age (the five-minute rule is not consulted), and to \<^verbatim>\<open>null\<close> if none is. When the
  pull succeeds, the call resolves to the \<^verbatim>\<open>data\<close> of the result; if the storage accepts
  the write, the result, stamped with the current version and the clock reading, is the
  stored snapshot from then on (and is valid at that moment if the platform reads its own
  date strings back); if the storage refuses the write, the storage is left as it is.
\<close>

theorem syncAll_fallback:
  "(\<forall>err. pull e = Inl err \<longrightarrow>
      (\<forall>snap. st CACHE_KEY = Some (Doc (JObj snap)) \<and>
         map_of snap ''version'' = Some (JStr CACHE_VERSION) \<longrightarrow>
         API_syncAll e st = (Inr (map_of snap ''data''), st,
             [\<lparr>url = ''/api/sync'', http_method = ''GET'', headers = [], body = None\<rparr>])) \<and>
      ((\<nexists>snap. st CACHE_KEY = Some (Doc (JObj snap)) \<and>
          map_of snap ''version'' = Some (JStr CACHE_VERSION)) \<longrightarrow>
       API_syncAll e st = (Inr (Some JNull), st,
           [\<lparr>url = ''/api/sync'', http_method = ''GET'', headers = [], body = None\<rparr>]))) \<and>
   (\<forall>result. pull e = Inr result \<longrightarrow>
      fst (API_syncAll e st) = Inr (map_of result ''data'') \<and>
      snd (snd (API_syncAll e st)) =
          [\<lparr>url = ''/api/sync'', http_method = ''GET'', headers = [], body = None\<rparr>] \<and>
      (\<forall>snap. snap = AList.update ''cachedAt'' (JStr (toISOString e (now e)))
                        (AList.update ''version'' (JStr CACHE_VERSION) result) \<longrightarrow>
         (setItem_ok e CACHE_KEY (Doc (JObj snap)) \<longrightarrow>
            fst (snd (API_syncAll e st)) = st(CACHE_KEY \<mapsto> Doc (JObj snap)) \<and>
            AppCache_get (st(CACHE_KEY \<mapsto> Doc (JObj snap))) = Some snap \<and>
            map_of snap ''version'' = Some (JStr CACHE_VERSION) \<and>
            map_of snap ''cachedAt'' = Some (JStr (toISOString e (now e))) \<and>
            map_of snap ''data'' = map_of result ''data'' \<and>
            (toISOString e (now e) \<noteq> [] \<and>
             Date_getTime e (JStr (toISOString e (now e))) = Some (now e) \<longrightarrow>
             AppCache_isValid e (st(CACHE_KEY \<mapsto> Doc (JObj snap))) = Inr True)) \<and>
         (\<not> setItem_ok e CACHE_KEY (Doc (JObj snap)) \<longrightarrow>
            fst (snd (API_syncAll e st)) = st)))"
proof (intro conjI allI impI)
  fix err snap
  assume "pull e = Inl err"
    and "st CACHE_KEY = Some (Doc (JObj snap)) \<and> map_of snap ''version'' = Some (JStr CACHE_VERSION)"
  then show "API_syncAll e st = (Inr (map_of snap ''data''), st,
      [\<lparr>url = ''/api/sync'', http_method = ''GET'', headers = [], body = None\<rparr>])"
    using AppCache_get_Some [of st snap] by (simp add: API_syncAll_def request_shapes)
next
  fix err
  assume "pull e = Inl err"
    and "\<nexists>snap. st CACHE_KEY = Some (Doc (JObj snap)) \<and>
           map_of snap ''version'' = Some (JStr CACHE_VERSION)"
  then show "API_syncAll e st = (Inr (Some JNull), st,
      [\<lparr>url = ''/api/sync'', http_method = ''GET'', headers = [], body = None\<rparr>])"
    using AppCache_get_None [of st] by (simp add: API_syncAll_def request_shapes)
next
  fix result
  assume "pull e = Inr result"
  then show "fst (API_syncAll e st) = Inr (map_of result ''data'')"
    using AppCache_set_data [of e st result]
    by (auto simp: API_syncAll_def split: prod.splits)
next
  fix result
  assume "pull e = Inr result"
  then show "snd (snd (API_syncAll e st)) =
      [\<lparr>url = ''/api/sync'', http_method = ''GET'', headers = [], body = None\<rparr>]"
    by (simp add: API_syncAll_def request_shapes split: prod.splits)
next
  fix result snap
  assume ok: "pull e = Inr result"
    and snap: "snap = AList.update ''cachedAt'' (JStr (toISOString e (now e)))
                        (AList.update ''version'' (JStr CACHE_VERSION) result)"
    and w: "setItem_ok e CACHE_KEY (Doc (JObj snap))"
  show stored: "fst (snd (API_syncAll e st)) = st(CACHE_KEY \<mapsto> Doc (JObj snap))"
    using ok w unfolding snap by (simp add: API_syncAll_def AppCache_set_accepted)
  show version: "map_of snap ''version'' = Some (JStr CACHE_VERSION)"
    and cachedAt: "map_of snap ''cachedAt'' = Some (JStr (toISOString e (now e)))"
    and "map_of snap ''data'' = map_of result ''data''"
    by (simp_all add: snap update_conv')
  show "AppCache_get (st(CACHE_KEY \<mapsto> Doc (JObj snap))) = Some snap"
    using version by (simp add: AppCache_get_Some)
  assume "toISOString e (now e) \<noteq> [] \<and>
          Date_getTime e (JStr (toISOString e (now e))) = Some (now e)"
  with version cachedAt show "AppCache_isValid e (st(CACHE_KEY \<mapsto> Doc (JObj snap))) = Inr True"
    unfolding AppCache_isValid_True by auto
next
  fix result snap
  assume ok: "pull e = Inr result"
    and snap: "snap = AList.update ''cachedAt'' (JStr (toISOString e (now e)))
                        (AList.update ''version'' (JStr CACHE_VERSION) result)"
    and w: "\<not> setItem_ok e CACHE_KEY (Doc (JObj snap))"
  then show "fst (snd (API_syncAll e st)) = st"
    using AppCache_set_refused [of e result st]
    by (auto simp: API_syncAll_def split: prod.splits)
qed

theorem syncAll_fallback_witness:
  "AppCache_isValid (example_env (\<lambda>r. Rejected) True 361000)
       (Map.empty(CACHE_KEY \<mapsto> Doc (JObj [(''version'', JStr ''1.0''),
          (''cachedAt'', JStr epoch_second), (''data'', JStr ''diary'')]))) = Inr False \<and>
   API_syncAll (example_env (\<lambda>r. Rejected) True 361000)
       (Map.empty(CACHE_KEY \<mapsto> Doc (JObj [(''version'', JStr ''1.0''),
          (''cachedAt'', JStr epoch_second), (''data'', JStr ''diary'')]))) =
     (Inr (Some (JStr ''diary'')),
      Map.empty(CACHE_KEY \<mapsto> Doc (JObj [(''version'', JStr ''1.0''),
          (''cachedAt'', JStr epoch_second), (''data'', JStr ''diary'')])),

          [\<lparr>url = ''/api/sync'', http_method = ''GET'', headers = [], body = None\<rparr>]) \<and>
   API_syncAll (example_env (\<lambda>r. Rejected) True 361000) Map.empty =
     (Inr (Some JNull), Map.empty,

          [\<lparr>url = ''/api/sync'', http_method = ''GET'', headers = [], body = None\<rparr>]) \<and>
   fst (API_syncAll
          (example_env (\<lambda>r. Response True (Doc (JObj [(''success'', JBool True),
             (''data'', JStr ''fresh'')]))) True 1000) Map.empty) = Inr (Some (JStr ''fresh'')) \<and>
   fst (snd (API_syncAll
          (example_env (\<lambda>r. Response True (Doc (JObj [(''success'', JBool True),
             (''data'', JStr ''fresh'')]))) True 1000) Map.empty)) =
     Map.empty(CACHE_KEY \<mapsto> Doc (JObj [(''success'', JBool True), (''data'', JStr ''fresh''),
       (''version'', JStr ''1.0''), (''cachedAt'', JStr epoch_second)])) \<and>
   AppCache_isValid
     (example_env (\<lambda>r. Response True (Doc (JObj [(''success'', JBool True),
        (''data'', JStr ''fresh'')]))) True 1000)
     (fst (snd (API_syncAll
        (example_env (\<lambda>r. Response True (Doc (JObj [(''success'', JBool True),
           (''data'', JStr ''fresh'')]))) True 1000) Map.empty))) = Inr True"
proof -
  let ?off = "example_env (\<lambda>r. Rejected) True 361000"
  let ?snap = "[(''version'', JStr ''1.0''), (''cachedAt'', JStr epoch_second),
                (''data'', JStr ''diary'')]"
  let ?st = "Map.empty(CACHE_KEY \<mapsto> Doc (JObj ?snap))"
  let ?result = "[(''success'', JBool True), (''data'', JStr ''fresh'')]"
  let ?stamped = "[(''success'', JBool True), (''data'', JStr ''fresh''),
                   (''version'', JStr ''1.0''), (''cachedAt'', JStr epoch_second)]"
  let ?on = "example_env (\<lambda>r. Response True (Doc (JObj ?result))) True 1000"
  have stale: "AppCache_isValid ?off ?st = Inr False"
    by (simp add: AppCache_isValid_def AppCache_get_def JSON_parse_def CACHE_VERSION_def
        example_env_def epoch_second_def fiveMinutes_def)
  have down: "pull ?off = Inl NetworkError"
    by (simp add: pull_def example_env_def)
  have up: "pull ?on = Inr ?result"
    by (simp add: pull_def example_env_def JSON_parse_def truthy_value_def)
  have stamped: "AList.update ''cachedAt'' (JStr (toISOString ?on (now ?on)))
                   (AList.update ''version'' (JStr CACHE_VERSION) ?result) = ?stamped"
    by (simp add: example_env_def CACHE_VERSION_def)
  have w: "setItem_ok ?on CACHE_KEY (Doc (JObj ?stamped))"
    by (simp add: example_env_def)
  have date: "toISOString ?on (now ?on) \<noteq> [] \<and>
              Date_getTime ?on (JStr (toISOString ?on (now ?on))) = Some (now ?on)"
    by (simp add: example_env_def epoch_second_def)
  have "API_syncAll ?off ?st = (Inr (Some (JStr ''diary'')), ?st,
      [\<lparr>url = ''/api/sync'', http_method = ''GET'', headers = [], body = None\<rparr>])"
    using syncAll_fallback [of ?off ?st, THEN conjunct1, rule_format, OF down, THEN conjunct1,
        rule_format, of ?snap]
    by (simp add: CACHE_VERSION_def)
  moreover have "API_syncAll ?off Map.empty =
      (Inr (Some JNull), Map.empty,
          [\<lparr>url = ''/api/sync'', http_method = ''GET'', headers = [], body = None\<rparr>])"
    using syncAll_fallback [of ?off Map.empty, THEN conjunct1, rule_format, OF down,
        THEN conjunct2]
    by simp
  moreover have "fst (API_syncAll ?on Map.empty) = Inr (Some (JStr ''fresh''))"
    using syncAll_fallback [of ?on Map.empty, THEN conjunct2, rule_format, OF up]
    by simp
  moreover have "fst (snd (API_syncAll ?on Map.empty)) = Map.empty(CACHE_KEY \<mapsto> Doc (JObj ?stamped)) \<and>
      AppCache_isValid ?on (Map.empty(CACHE_KEY \<mapsto> Doc (JObj ?stamped))) = Inr True"
    using syncAll_fallback [of ?on Map.empty, THEN conjunct2, rule_format, OF up,
        THEN conjunct2, THEN conjunct2, rule_format, OF stamped [symmetric], THEN conjunct1,
        rule_format, OF w] date
    by blast
  ultimately show ?thesis
    using stale by simp
qed

text \<open>
  Claim C7. Start from a queue without pending changes (\<^verbatim>\<open>hasChanges()\<close> is false) that
  holds its \<^verbatim>\<open>new_entries\<close> list, and let the storage accept both writes. Then
  \<^verbatim>\<open>OfflineQueue.addEntry\<close> on any entry returns the temp id of its clock reading, and
  \<^verbatim>\<open>OfflineQueue.deleteEntry\<close> with that id, at any later time, returns and leaves
  \<^verbatim>\<open>new_entries\<close> empty and \<^verbatim>\<open>hasChanges()\<close> false.
\<close>

theorem enqueue_then_dequeue:
  assumes none: "OfflineQueue_hasChanges e st = Inr False"
    and list: "queue_list (OfflineQueue_get st) ''new_entries'' = Some es"
    and w1: "\<And>v. setItem_ok e1 QUEUE_KEY v"
    and w2: "\<And>v. setItem_ok e2 QUEUE_KEY v"
  shows "\<exists>entry' st1 st2.
           OfflineQueue_addEntry e1 st entry = Inr (temp_id e1, entry', st1) \<and>
           OfflineQueue_deleteEntry e2 st1 (JStr (temp_id e1)) = Inr st2 \<and>
           queue_list (OfflineQueue_get st2) ''new_entries'' = Some [] \<and>
           OfflineQueue_hasChanges e st2 = Inr False"
proof -
  define entry' where "entry' = AList.update ''_tempId'' (JStr (temp_id e1)) entry"
  define st1 where
    "st1 = st(QUEUE_KEY \<mapsto> Doc (set_prop (OfflineQueue_get st) ''new_entries'' (JArr [JObj entry'])))"
  define st2 where
    "st2 = st1(QUEUE_KEY \<mapsto> Doc (set_prop (OfflineQueue_get st1) ''new_entries'' (JArr [])))"
  from none list have es: "es = []"
    by (rule hasChanges_False_new_entries)
  from list obtain ps where q: "OfflineQueue_get st = JObj ps"
    and m: "map_of ps ''new_entries'' = Some (JArr [])"
    unfolding es by (auto simp: queue_list_Some)
  have add: "OfflineQueue_addEntry e1 st entry = Inr (temp_id e1, entry', st1)"
    using addEntry_queued [OF list w1, of entry] by (simp add: es entry'_def st1_def)
  have q1: "OfflineQueue_get st1 = JObj (AList.update ''new_entries'' (JArr [JObj entry']) ps)"
    by (simp add: st1_def get_after_write q)
  have list1: "queue_list (OfflineQueue_get st1) ''new_entries'' = Some [JObj entry']"
    by (simp add: q1 queue_list_Some update_conv')
  have str: "js_String e2 (JStr (temp_id e1)) = Inr (temp_id e1)"
    by simp
  have del: "OfflineQueue_deleteEntry e2 st1 (JStr (temp_id e1)) = Inr st2"
    using deleteEntry_temp_id [OF str startsWith_temp_id list1 _ w2]
    by (simp add: st2_def entry'_def update_conv')
  have q2: "OfflineQueue_get st2 =
            JObj (AList.update ''new_entries'' (JArr [])
                    (AList.update ''new_entries'' (JArr [JObj entry']) ps))"
    by (simp add: st2_def get_after_write q1)
  have list2: "queue_list (OfflineQueue_get st2) ''new_entries'' = Some []"
    by (simp add: q2 queue_list_Some update_conv')
  have same: "map_of ps =
              map_of (AList.update ''new_entries'' (JArr [])
                        (AList.update ''new_entries'' (JArr [JObj entry']) ps))"
    using m by (auto simp: update_conv')
  have "OfflineQueue_hasChanges e st2 = OfflineQueue_hasChanges e st"
    by (rule hasChanges_cong [OF q2 q same [symmetric]])
  with none add del list2 show ?thesis
    by auto
qed

theorem enqueue_then_dequeue_witness:
  "OfflineQueue_hasChanges (example_env (\<lambda>r. Rejected) True 1000) Map.empty = Inr False \<and>
   queue_list (OfflineQueue_get Map.empty) ''new_entries'' = Some [] \<and>
   (\<exists>entry' st1 st2.
      OfflineQueue_addEntry (example_env (\<lambda>r. Rejected) True 1000) Map.empty apple =
        Inr (''temp_1000'', entry', st1) \<and>
      OfflineQueue_deleteEntry (example_env (\<lambda>r. Rejected) True 2000) st1 (JStr ''temp_1000'') =
        Inr st2 \<and>
      queue_list (OfflineQueue_get st2) ''new_entries'' = Some [] \<and>
      OfflineQueue_hasChanges (example_env (\<lambda>r. Rejected) True 1000) st2 = Inr False)"
proof -
  let ?e1 = "example_env (\<lambda>r. Rejected) True 1000"
  let ?e2 = "example_env (\<lambda>r. Rejected) True 2000"
  have none: "OfflineQueue_hasChanges ?e1 Map.empty = Inr False"
    by (simp add: OfflineQueue_hasChanges_def get_missing empty_queue_def list_nonempty_def)
  have list: "queue_list (OfflineQueue_get Map.empty) ''new_entries'' = Some []"
    by (simp add: get_missing empty_queue_def queue_list_def)
  have w1: "\<And>v. setItem_ok ?e1 QUEUE_KEY v"
    by (simp add: example_env_def)
  have w2: "\<And>v. setItem_ok ?e2 QUEUE_KEY v"
    by (simp add: example_env_def)
  have t: "temp_id ?e1 = ''temp_1000''"
    by (simp add: temp_id_def example_env_def Number_toString_def digits_def decimal.simps
        digit_char_def)
  from enqueue_then_dequeue [OF none list w1 w2, of apple] none list show ?thesis
    unfolding t by simp
qed

text \<open>
  Claim C8, as stated, fails: \<^verbatim>\<open>OfflineQueue.get\<close> returns whatever the stored text parses
  to. The text \<^verbatim>\<open>{}\<close> parses, and what comes back has none of the four lists.
\<close>

theorem getQueue_shape_counterexample:
  "OfflineQueue_get (Map.empty(QUEUE_KEY \<mapsto> Doc (JObj []))) = JObj [] \<and>
   \<not> structurally_valid (OfflineQueue_get (Map.empty(QUEUE_KEY \<mapsto> Doc (JObj []))))"
  by (simp add: get_after_write structurally_valid_def queue_list_def)

text \<open>
  Claim C8, amended. \<^verbatim>\<open>OfflineQueue.get\<close> returns a value for every state of the storage
  (its \<^verbatim>\<open>catch\<close> clause lets nothing through, so the model is a total function into
  JSON values). When there is no item, or the item does not parse, the value is the empty
  queue, which is structurally valid and has its four lists empty. An item that parses is
  returned as parsed, unchecked: the result is a structurally valid queue exactly when the
  stored document is one.
\<close>

theorem getQueue_fail_soft:
  "(st QUEUE_KEY = None \<or> st QUEUE_KEY = Some Unparsable \<longrightarrow>
      OfflineQueue_get st = empty_queue) \<and>
   (\<forall>q. st QUEUE_KEY = Some (Doc q) \<longrightarrow>
      OfflineQueue_get st = q \<and>
      (structurally_valid (OfflineQueue_get st) \<longleftrightarrow> structurally_valid q)) \<and>
   structurally_valid empty_queue \<and>
   queue_list empty_queue ''new_entries'' = Some [] \<and>
   queue_list empty_queue ''deleted_entries'' = Some [] \<and>
   queue_list empty_queue ''new_products'' = Some [] \<and>
   queue_list empty_queue ''deleted_products'' = Some []"
proof -
  have "queue_list empty_queue ''new_entries'' = Some []"
    and "queue_list empty_queue ''deleted_entries'' = Some []"
    and "queue_list empty_queue ''new_products'' = Some []"
    and "queue_list empty_queue ''deleted_products'' = Some []"
    by (simp_all add: empty_queue_def queue_list_def)
  then show ?thesis
    by (auto simp: get_missing get_unparsable get_doc structurally_valid_def)
qed

theorem getQueue_fail_soft_witness:
  "OfflineQueue_get Map.empty = empty_queue \<and>
   OfflineQueue_get (Map.empty(QUEUE_KEY \<mapsto> Unparsable)) = empty_queue \<and>
   OfflineQueue_get (Map.empty(QUEUE_KEY \<mapsto> Doc (set_prop empty_queue ''deleted_entries'' (JArr [JNum 7])))) =
     set_prop empty_queue ''deleted_entries'' (JArr [JNum 7]) \<and>
   structurally_valid (OfflineQueue_get (Map.empty(QUEUE_KEY \<mapsto>
     Doc (set_prop empty_queue ''deleted_entries'' (JArr [JNum 7])))))"
proof -
  let ?q = "set_prop empty_queue ''deleted_entries'' (JArr [JNum 7])"
  have valid: "structurally_valid ?q"
    by (simp add: structurally_valid_def queue_list_def empty_queue_def)
  have "OfflineQueue_get Map.empty = empty_queue"
    using getQueue_fail_soft [of Map.empty, THEN conjunct1] by simp
  moreover have "OfflineQueue_get (Map.empty(QUEUE_KEY \<mapsto> Unparsable)) = empty_queue"
    using getQueue_fail_soft [of "Map.empty(QUEUE_KEY \<mapsto> Unparsable)", THEN conjunct1] by simp
  moreover have "OfflineQueue_get (Map.empty(QUEUE_KEY \<mapsto> Doc ?q)) = ?q \<and>
      structurally_valid (OfflineQueue_get (Map.empty(QUEUE_KEY \<mapsto> Doc ?q)))"
    using getQueue_fail_soft [of "Map.empty(QUEUE_KEY \<mapsto> Doc ?q)", THEN conjunct2,
        THEN conjunct1, rule_format, of ?q] valid
    by simp
  ultimately show ?thesis
    using valid by simp
qed

text \<open>
  Claim C9, as stated, fails. Nothing checks the shape of the stored queue: on a stored
  queue that parses but holds no \<^verbatim>\<open>deleted_entries\<close> list, the \<^verbatim>\<open>push\<close> in
  \<^verbatim>\<open>OfflineQueue.deleteEntry\<close> throws and the id is appended nowhere.
\<close>

theorem dequeueEntry_no_list_counterexample:
  "OfflineQueue_deleteEntry (example_env (\<lambda>r. Rejected) True 1000)
     (Map.empty(QUEUE_KEY \<mapsto> Doc (JObj [(''new_entries'', JArr [])]))) (JNum 7) = Inl TypeError"
  by (simp add: OfflineQueue_deleteEntry_def get_after_write Number_toString_def digits_def
      decimal.simps digit_char_def startsWith_def)

text \<open>
  Claim C9, amended. For every id that has a string form without the \<^verbatim>\<open>temp_\<close> prefix,
  and every queue that holds a \<^verbatim>\<open>deleted_entries\<close> list, if the storage accepts the
  write of the updated queue, \<^verbatim>\<open>OfflineQueue.deleteEntry\<close> returns, the id is appended to
  \<^verbatim>\<open>deleted_entries\<close>, and \<^verbatim>\<open>new_entries\<close> is what it was. Whatever the queue and the
  storage, a call with such an id that returns has left \<^verbatim>\<open>new_entries\<close> as it was: it
  never removes an item from it.
\<close>

theorem dequeueEntry_non_temp_id:
  "(js_String e entryId = Inr s \<and> \<not> startsWith s ''temp_'' \<and>
    queue_list (OfflineQueue_get st) ''deleted_entries'' = Some ds \<and>
    setItem_ok e QUEUE_KEY
      (Doc (set_prop (OfflineQueue_get st) ''deleted_entries'' (JArr (ds @ [entryId])))) \<longrightarrow>
    (\<exists>st'. OfflineQueue_deleteEntry e st entryId = Inr st' \<and>
       queue_list (OfflineQueue_get st') ''deleted_entries'' = Some (ds @ [entryId]) \<and>
       get_prop (OfflineQueue_get st') ''new_entries'' =
         get_prop (OfflineQueue_get st) ''new_entries'')) \<and>
   (\<forall>st'. js_String e entryId = Inr s \<and> \<not> startsWith s ''temp_'' \<and>
      OfflineQueue_deleteEntry e st entryId = Inr st' \<longrightarrow>
      get_prop (OfflineQueue_get st') ''new_entries'' =
        get_prop (OfflineQueue_get st) ''new_entries'')"
proof (intro conjI allI impI)
  let ?q' = "set_prop (OfflineQueue_get st) ''deleted_entries'' (JArr (ds @ [entryId]))"
  assume h: "js_String e entryId = Inr s \<and> \<not> startsWith s ''temp_'' \<and>
    queue_list (OfflineQueue_get st) ''deleted_entries'' = Some ds \<and>
    setItem_ok e QUEUE_KEY (Doc ?q')"
  then have "OfflineQueue_deleteEntry e st entryId = Inr (st(QUEUE_KEY \<mapsto> Doc ?q'))"
    by (intro deleteEntry_other_id) auto
  moreover from h have "queue_list ?q' ''deleted_entries'' = Some (ds @ [entryId])"
    by (intro queue_list_set_prop_same) auto
  moreover have "get_prop ?q' ''new_entries'' = get_prop (OfflineQueue_get st) ''new_entries''"
    by (rule get_prop_set_prop_other) simp
  ultimately show "\<exists>st'. OfflineQueue_deleteEntry e st entryId = Inr st' \<and>
       queue_list (OfflineQueue_get st') ''deleted_entries'' = Some (ds @ [entryId]) \<and>
       get_prop (OfflineQueue_get st') ''new_entries'' =
         get_prop (OfflineQueue_get st) ''new_entries''"
    by (simp add: get_after_write)
next
  fix st'
  assume h: "js_String e entryId = Inr s \<and> \<not> startsWith s ''temp_'' \<and>
      OfflineQueue_deleteEntry e st entryId = Inr st'"
  then obtain xs where xs: "array_prop (OfflineQueue_get st) ''deleted_entries'' = Inr xs"
    and set: "OfflineQueue_set e st
                (set_prop (OfflineQueue_get st) ''deleted_entries'' (JArr (xs @ [entryId]))) =
              Inr st'"
    by (auto simp: OfflineQueue_deleteEntry_def Let_def split: sum.splits)
  from set have "st' = st(QUEUE_KEY \<mapsto>
      Doc (set_prop (OfflineQueue_get st) ''deleted_entries'' (JArr (xs @ [entryId]))))"
    by (auto simp: OfflineQueue_set_def localStorage_setItem_def JSON_stringify_def
        split: if_splits)
  then show "get_prop (OfflineQueue_get st') ''new_entries'' =
        get_prop (OfflineQueue_get st) ''new_entries''"
    by (simp add: get_after_write get_prop_set_prop_other)
qed

theorem dequeueEntry_non_temp_id_witness:
  "\<exists>st'. OfflineQueue_deleteEntry (example_env (\<lambda>r. Rejected) True 1000)
            (Map.empty(QUEUE_KEY \<mapsto> Doc (JObj [(''new_entries'',
               JArr [JObj [(''product'', JStr ''apple''), (''_tempId'', JStr ''temp_5'')],
                     JObj [(''product'', JStr ''pear''), (''_tempId'', JStr ''7'')]]),
               (''deleted_entries'', JArr [JNum 3])])))
            (JStr ''7'') = Inr st' \<and>
          queue_list (OfflineQueue_get st') ''deleted_entries'' = Some [JNum 3, JStr ''7''] \<and>
          get_prop (OfflineQueue_get st') ''new_entries'' =
            Inr (Some (JArr [JObj [(''product'', JStr ''apple''), (''_tempId'', JStr ''temp_5'')],
                             JObj [(''product'', JStr ''pear''), (''_tempId'', JStr ''7'')]]))"
proof -
  let ?e = "example_env (\<lambda>r. Rejected) True 1000"
  let ?es = "[JObj [(''product'', JStr ''apple''), (''_tempId'', JStr ''temp_5'')],
              JObj [(''product'', JStr ''pear''), (''_tempId'', JStr ''7'')]]"
  let ?st = "Map.empty(QUEUE_KEY \<mapsto> Doc (JObj [(''new_entries'', JArr ?es),
               (''deleted_entries'', JArr [JNum 3])]))"
  have str: "js_String ?e (JStr ''7'') = Inr ''7''"
    by simp
  have other: "\<not> startsWith ''7'' ''temp_''"
    by (simp add: startsWith_def)
  have list: "queue_list (OfflineQueue_get ?st) ''deleted_entries'' = Some [JNum 3]"
    by (simp add: get_after_write queue_list_def)
  have w: "setItem_ok ?e QUEUE_KEY v" for v
    by (simp add: example_env_def)
  have "get_prop (OfflineQueue_get ?st) ''new_entries'' = Inr (Some (JArr ?es))"
    by (simp add: get_after_write)
  with dequeueEntry_non_temp_id [of ?e "JStr ''7''" "''7''" ?st "[JNum 3]", THEN conjunct1]
    str other list w
  show ?thesis
    by simp
qed

text \<open>
  Claim C10, as stated, fails. Nothing checks the items of the stored queue: when
  \<^verbatim>\<open>new_entries\<close> holds a \<^verbatim>\<open>null\<close> beside the entry that carries the id, the callback of
  the filter throws on reading \<^verbatim>\<open>_tempId\<close> of \<^verbatim>\<open>null\<close>, and nothing is removed.
\<close>

theorem dequeueEntry_null_item_counterexample:
  "OfflineQueue_deleteEntry (example_env (\<lambda>r. Rejected) True 1000)
     (Map.empty(QUEUE_KEY \<mapsto> Doc (JObj [(''new_entries'',
        JArr [JNull, JObj [(''_tempId'', JStr ''temp_5'')]]), (''deleted_entries'', JArr []),
        (''new_products'', JArr []), (''deleted_products'', JArr [])])))
     (JStr ''temp_5'') = Inl TypeError"
  by (simp add: OfflineQueue_deleteEntry_def get_after_write startsWith_def other_tempId_def)

text \<open>
  Claim C10, amended. For every id \<open>t\<close> that has a string form with the \<^verbatim>\<open>temp_\<close> prefix
  and every queue whose \<^verbatim>\<open>new_entries\<close> list holds no \<^verbatim>\<open>null\<close>, if the storage accepts
  the write of the updated queue, \<^verbatim>\<open>OfflineQueue.deleteEntry\<close> keeps exactly the items
  whose \<^verbatim>\<open>_tempId\<close> is not \<open>t\<close>: every item that carries \<open>t\<close> goes, however many there
  are. In particular two entries enqueued at the same clock reading (a time value, within
  the integers a double holds exactly) get the same temp id, and, the storage accepting
  every write of the queue, one call with that id removes both.
\<close>

theorem dequeueEntry_temp_id_removes_all:
  "(\<forall>t s es. js_String e t = Inr s \<and> startsWith s ''temp_'' \<and>
      queue_list (OfflineQueue_get st) ''new_entries'' = Some es \<and> JNull \<notin> set es \<and>
      setItem_ok e QUEUE_KEY
        (Doc (set_prop (OfflineQueue_get st) ''new_entries''
                (JArr (filter (\<lambda>x. \<not> has_tempId t x) es)))) \<longrightarrow>
      (\<exists>st'. OfflineQueue_deleteEntry e st t = Inr st' \<and>
         queue_list (OfflineQueue_get st') ''new_entries'' =
           Some (filter (\<lambda>x. \<not> has_tempId t x) es))) \<and>
   (\<forall>es (e1::env) (e2::env) a b.
      queue_list (OfflineQueue_get st) ''new_entries'' = Some es \<and> JNull \<notin> set es \<and>
      now e1 = now e2 \<and> \<bar>now e1\<bar> \<le> 9007199254740992 \<and>
      (\<forall>v. setItem_ok e1 QUEUE_KEY v) \<and> (\<forall>v. setItem_ok e2 QUEUE_KEY v) \<and>
      (\<forall>v. setItem_ok e QUEUE_KEY v) \<longrightarrow>
      (\<exists>t a' b' st1 st2 st3.
         OfflineQueue_addEntry e1 st a = Inr (t, a', st1) \<and>
         OfflineQueue_addEntry e2 st1 b = Inr (t, b', st2) \<and>
         queue_list (OfflineQueue_get st2) ''new_entries'' = Some (es @ [JObj a', JObj b']) \<and>
         OfflineQueue_deleteEntry e st2 (JStr t) = Inr st3 \<and>
         queue_list (OfflineQueue_get st3) ''new_entries'' =
           Some (filter (\<lambda>x. \<not> has_tempId (JStr t) x) es)))"
proof (intro conjI allI impI)
  fix t s es
  assume h: "js_String e t = Inr s \<and> startsWith s ''temp_'' \<and>
      queue_list (OfflineQueue_get st) ''new_entries'' = Some es \<and> JNull \<notin> set es \<and>
      setItem_ok e QUEUE_KEY
        (Doc (set_prop (OfflineQueue_get st) ''new_entries''
                (JArr (filter (\<lambda>x. \<not> has_tempId t x) es))))"
  then have "OfflineQueue_deleteEntry e st t =
      Inr (st(QUEUE_KEY \<mapsto> Doc (set_prop (OfflineQueue_get st) ''new_entries''
                                    (JArr (filter (\<lambda>x. \<not> has_tempId t x) es)))))"
    by (intro deleteEntry_temp_id [where s = s]) auto
  moreover from h have "queue_list (set_prop (OfflineQueue_get st) ''new_entries''
       (JArr (filter (\<lambda>x. \<not> has_tempId t x) es))) ''new_entries'' =
       Some (filter (\<lambda>x. \<not> has_tempId t x) es)"
    by (intro queue_list_set_prop_same) auto
  ultimately show "\<exists>st'. OfflineQueue_deleteEntry e st t = Inr st' \<and>
         queue_list (OfflineQueue_get st') ''new_entries'' =
           Some (filter (\<lambda>x. \<not> has_tempId t x) es)"
    by (simp add: get_after_write)
next
  fix es and e1 e2 :: env and a b
  assume h: "queue_list (OfflineQueue_get st) ''new_entries'' = Some es \<and> JNull \<notin> set es \<and>
      now e1 = now e2 \<and> \<bar>now e1\<bar> \<le> 9007199254740992 \<and>
      (\<forall>v. setItem_ok e1 QUEUE_KEY v) \<and> (\<forall>v. setItem_ok e2 QUEUE_KEY v) \<and>
      (\<forall>v. setItem_ok e QUEUE_KEY v)"
  then have list: "queue_list (OfflineQueue_get st) ''new_entries'' = Some es"
    and nonull: "JNull \<notin> set es" and same: "temp_id e2 = temp_id e1"
    and w1: "\<And>v. setItem_ok e1 QUEUE_KEY v" and w2: "\<And>v. setItem_ok e2 QUEUE_KEY v"
    and w: "\<And>v. setItem_ok e QUEUE_KEY v"
    by (auto simp: temp_id_def Number_toString_def)
  define t where "t = temp_id e1"
  define a' where "a' = AList.update ''_tempId'' (JStr t) a"
  define b' where "b' = AList.update ''_tempId'' (JStr t) b"
  define st1 where
    "st1 = st(QUEUE_KEY \<mapsto> Doc (set_prop (OfflineQueue_get st) ''new_entries'' (JArr (es @ [JObj a']))))"
  define st2 where
    "st2 = st1(QUEUE_KEY \<mapsto>
             Doc (set_prop (OfflineQueue_get st1) ''new_entries'' (JArr ((es @ [JObj a']) @ [JObj b']))))"
  define st3 where
    "st3 = st2(QUEUE_KEY \<mapsto>
             Doc (set_prop (OfflineQueue_get st2) ''new_entries''
                    (JArr (filter (\<lambda>x. \<not> has_tempId (JStr t) x) (es @ [JObj a', JObj b'])))))"
  have add1: "OfflineQueue_addEntry e1 st a = Inr (t, a', st1)"
    using addEntry_queued [OF list w1, of a] by (simp add: t_def a'_def st1_def)
  have list1: "queue_list (OfflineQueue_get st1) ''new_entries'' = Some (es @ [JObj a'])"
    by (simp add: st1_def get_after_write queue_list_set_prop_same [OF list])
  have add2: "OfflineQueue_addEntry e2 st1 b = Inr (t, b', st2)"
    using addEntry_queued [OF list1 w2, of b] by (simp add: same t_def b'_def st2_def)
  have list2: "queue_list (OfflineQueue_get st2) ''new_entries'' = Some (es @ [JObj a', JObj b'])"
    by (simp add: st2_def get_after_write queue_list_set_prop_same [OF list1])
  have str: "js_String e (JStr t) = Inr t"
    by simp
  have temp: "startsWith t ''temp_''"
    by (simp add: t_def startsWith_temp_id)
  have nonull2: "JNull \<notin> set (es @ [JObj a', JObj b'])"
    using nonull by simp
  have del: "OfflineQueue_deleteEntry e st2 (JStr t) = Inr st3"
    using deleteEntry_temp_id [OF str temp list2 nonull2 w] by (simp add: st3_def)
  have gone: "filter (\<lambda>x. \<not> has_tempId (JStr t) x) (es @ [JObj a', JObj b']) =
              filter (\<lambda>x. \<not> has_tempId (JStr t) x) es"
    by (simp add: a'_def b'_def update_conv')
  have list3: "queue_list (OfflineQueue_get st3) ''new_entries'' =
               Some (filter (\<lambda>x. \<not> has_tempId (JStr t) x) es)"
    unfolding st3_def gone by (simp add: get_after_write queue_list_set_prop_same [OF list2])
  from add1 add2 list2 del list3
  show "\<exists>t a' b' st1 st2 st3.
         OfflineQueue_addEntry e1 st a = Inr (t, a', st1) \<and>
         OfflineQueue_addEntry e2 st1 b = Inr (t, b', st2) \<and>
         queue_list (OfflineQueue_get st2) ''new_entries'' = Some (es @ [JObj a', JObj b']) \<and>
         OfflineQueue_deleteEntry e st2 (JStr t) = Inr st3 \<and>
         queue_list (OfflineQueue_get st3) ''new_entries'' =
           Some (filter (\<lambda>x. \<not> has_tempId (JStr t) x) es)"
    by blast
qed

theorem dequeueEntry_temp_id_removes_all_witness:
  "(\<exists>st'. OfflineQueue_deleteEntry (example_env (\<lambda>r. Rejected) True 2000)
            (Map.empty(QUEUE_KEY \<mapsto> Doc (JObj [(''new_entries'',
               JArr [JObj [(''_tempId'', JStr ''temp_5'')], JObj [(''_tempId'', JStr ''temp_6'')],
                     JObj [(''_tempId'', JStr ''temp_5'')]])])))
            (JStr ''temp_5'') = Inr st' \<and>
          queue_list (OfflineQueue_get st') ''new_entries'' =
            Some [JObj [(''_tempId'', JStr ''temp_6'')]]) \<and>
   (\<exists>t a' b' st1 st2 st3.
      OfflineQueue_addEntry (example_env (\<lambda>r. Rejected) True 1000) Map.empty apple =
        Inr (t, a', st1) \<and>
      OfflineQueue_addEntry (example_env (\<lambda>r. Rejected) True 1000) st1 apple = Inr (t, b', st2) \<and>
      queue_list (OfflineQueue_get st2) ''new_entries'' = Some [JObj a', JObj b'] \<and>
      OfflineQueue_deleteEntry (example_env (\<lambda>r. Rejected) True 2000) st2 (JStr t) = Inr st3 \<and>
      queue_list (OfflineQueue_get st3) ''new_entries'' = Some [])"
proof -
  let ?e = "example_env (\<lambda>r. Rejected) True 2000"
  let ?e1 = "example_env (\<lambda>r. Rejected) True 1000"
  let ?es = "[JObj [(''_tempId'', JStr ''temp_5'')], JObj [(''_tempId'', JStr ''temp_6'')],
              JObj [(''_tempId'', JStr ''temp_5'')]]"
  let ?st = "Map.empty(QUEUE_KEY \<mapsto> Doc (JObj [(''new_entries'', JArr ?es)]))"
  have w: "\<forall>v. setItem_ok ?e QUEUE_KEY v" and w1: "\<forall>v. setItem_ok ?e1 QUEUE_KEY v"
    by (simp_all add: example_env_def)
  have clock: "\<bar>now ?e1\<bar> \<le> 9007199254740992"
    by (simp add: example_env_def)
  have str: "js_String ?e (JStr ''temp_5'') = Inr ''temp_5''"
    by simp
  have temp: "startsWith ''temp_5'' ''temp_''"
    by (simp add: startsWith_def)
  have list: "queue_list (OfflineQueue_get ?st) ''new_entries'' = Some ?es"
    by (simp add: get_after_write queue_list_def)
  have nonull: "JNull \<notin> set ?es"
    by simp
  have list0: "queue_list (OfflineQueue_get Map.empty) ''new_entries'' = Some []"
    by (simp add: get_missing empty_queue_def queue_list_def)
  from dequeueEntry_temp_id_removes_all [of ?e ?st, THEN conjunct1, rule_format,
      of "JStr ''temp_5''" "''temp_5''" ?es] str temp list nonull w
  have first: "\<exists>st'. OfflineQueue_deleteEntry ?e ?st (JStr ''temp_5'') = Inr st' \<and>
          queue_list (OfflineQueue_get st') ''new_entries'' =
            Some [JObj [(''_tempId'', JStr ''temp_6'')]]"
    by simp
  from dequeueEntry_temp_id_removes_all [of ?e Map.empty, THEN conjunct2, rule_format,
      of "[]" ?e1 ?e1 apple apple] list0 w w1 clock
  have second: "\<exists>t a' b' st1 st2 st3.
      OfflineQueue_addEntry ?e1 Map.empty apple = Inr (t, a', st1) \<and>
      OfflineQueue_addEntry ?e1 st1 apple = Inr (t, b', st2) \<and>
      queue_list (OfflineQueue_get st2) ''new_entries'' = Some [JObj a', JObj b'] \<and>
      OfflineQueue_deleteEntry ?e st2 (JStr t) = Inr st3 \<and>
      queue_list (OfflineQueue_get st3) ''new_entries'' = Some []"
    by simp
  from first second show ?thesis
    by (rule conjI)
qed

end
